theory Spec2Isabelle
  imports Complex_Main
begin

section \<open>Number model\<close>

text \<open>
  The renderer computes with C++ \<open>double\<close> and \<open>int\<close>.  A \<open>double\<close> is modelled by a
  \<^typ>\<open>real\<close>: arithmetic is exact, rounding is not represented and a NaN has no
  counterpart.  The only doubles of the program that are infinite by design are bounds
  of an \<open>interval\<close> (\<open>infinity\<close> in \<open>ray_color\<close>, the running closest hit in
  \<open>hittable_list::hit\<close>), so interval bounds of ray parameters range over the reals
  extended by the two infinities.  An \<open>int\<close> is modelled by \<^typ>\<open>int\<close>; no integer
  arithmetic of the modelled functions can overflow.

  HOL's \<open>x / 0\<close> is \<open>0\<close>, where IEEE arithmetic yields an infinity or a NaN.  Where a
  modelled function divides by a quantity that can be zero and a stated property depends
  on the quotient, the model writes the IEEE outcome out as a branch of its own.
\<close>

datatype xreal = NegInf | Finite real | PosInf

instantiation xreal :: linorder
begin

fun less_eq_xreal :: "xreal \<Rightarrow> xreal \<Rightarrow> bool" where
  "less_eq_xreal NegInf _ = True"
| "less_eq_xreal (Finite a) NegInf = False"
| "less_eq_xreal (Finite a) (Finite b) = (a \<le> b)"
| "less_eq_xreal (Finite a) PosInf = True"
| "less_eq_xreal PosInf PosInf = True"
| "less_eq_xreal PosInf _ = False"

definition less_xreal :: "xreal \<Rightarrow> xreal \<Rightarrow> bool" where
  "less_xreal a b \<longleftrightarrow> a \<le> b \<and> \<not> b \<le> a"

instance
proof
  fix a b c :: xreal
  show "(a < b) = (a \<le> b \<and> \<not> b \<le> a)" by (simp add: less_xreal_def)
  show "a \<le> a" by (cases a) simp_all
  show "a \<le> b \<Longrightarrow> b \<le> c \<Longrightarrow> a \<le> c" by (cases a; cases b; cases c) simp_all
  show "a \<le> b \<Longrightarrow> b \<le> a \<Longrightarrow> a = b" by (cases a; cases b) simp_all
  show "a \<le> b \<or> b \<le> a" by (cases a; cases b) auto
qed

end

text \<open>
  Modelled from the spec: the utility header that declares \<open>infinity\<close> is not among the
  sources.  The spec's universal interval runs from minus to plus infinity; \<open>infinity\<close>
  is the IEEE positive infinity.
\<close>

definition infinity :: xreal where
  "infinity = PosInf"

text \<open>
  \<open>int(d)\<close> for a double \<open>d\<close>: truncation toward zero.  C++ defines the conversion only
  when the truncated value fits an \<open>int\<close> (32 bits).  Outside that range, and for an
  infinity or a NaN, the language does not determine the result and the program goes on
  with whatever \<open>int\<close> the conversion instruction leaves (on x86-64 the value
  \<open>-2147483648\<close>); that value, \<open>indefinite\<close>, is a parameter of the model.
\<close>

definition trunc_int :: "real \<Rightarrow> int" where
  "trunc_int d = (if 0 \<le> d then \<lfloor>d\<rfloor> else \<lceil>d\<rceil>)"

definition int_representable :: "real \<Rightarrow> bool" where
  "int_representable d \<longleftrightarrow> - 2147483648 \<le> trunc_int d \<and> trunc_int d \<le> 2147483647"

definition double_to_int :: "int \<Rightarrow> real \<Rightarrow> int" where
  "double_to_int indefinite d = (if int_representable d then trunc_int d else indefinite)"

section \<open>Vectors and rays\<close>

text \<open>
  Modelled from the spec: the headers that declare \<open>vec3\<close> (with \<open>point3\<close>), its
  operators, \<open>dot\<close>, \<open>cross\<close>, \<open>unit_vector\<close>, \<open>reflect\<close> and the class \<open>ray\<close> are not
  among the sources.  The spec describes a 3-component real vector with
  dot/cross/length/normalize/reflect, gives reflection as \<open>d - 2 * dot(d,n) * n\<close> and
  a ray as origin and direction with \<open>at(t) = origin + t * direction\<close>; a
  default-constructed vector is the zero vector.
\<close>

datatype vec3 = vec3 (vec3_x: real) (vec3_y: real) (vec3_z: real)

type_synonym point3 = vec3
type_synonym color = vec3

abbreviation point3 :: "real \<Rightarrow> real \<Rightarrow> real \<Rightarrow> point3" where
  "point3 \<equiv> vec3"

abbreviation color :: "real \<Rightarrow> real \<Rightarrow> real \<Rightarrow> color" where
  "color \<equiv> vec3"

instantiation vec3 :: "{zero, plus, minus, uminus, times}"
begin

definition zero_vec3 :: vec3 where
  "zero_vec3 = vec3 0 0 0"

definition plus_vec3 :: "vec3 \<Rightarrow> vec3 \<Rightarrow> vec3" where
  "plus_vec3 u v = vec3 (vec3_x u + vec3_x v) (vec3_y u + vec3_y v) (vec3_z u + vec3_z v)"

definition minus_vec3 :: "vec3 \<Rightarrow> vec3 \<Rightarrow> vec3" where
  "minus_vec3 u v = vec3 (vec3_x u - vec3_x v) (vec3_y u - vec3_y v) (vec3_z u - vec3_z v)"

definition uminus_vec3 :: "vec3 \<Rightarrow> vec3" where
  "uminus_vec3 v = vec3 (- vec3_x v) (- vec3_y v) (- vec3_z v)"

text \<open>The product of two vectors is elementwise (attenuation times colour).\<close>

definition times_vec3 :: "vec3 \<Rightarrow> vec3 \<Rightarrow> vec3" where
  "times_vec3 u v = vec3 (vec3_x u * vec3_x v) (vec3_y u * vec3_y v) (vec3_z u * vec3_z v)"

instance ..

end

text \<open>\<open>t * v\<close> (and \<open>v * t\<close>) for a double \<open>t\<close>, and \<open>v / t\<close>.\<close>

definition scale :: "real \<Rightarrow> vec3 \<Rightarrow> vec3" where
  "scale t v = vec3 (t * vec3_x v) (t * vec3_y v) (t * vec3_z v)"

definition vec3_div :: "vec3 \<Rightarrow> real \<Rightarrow> vec3" where
  "vec3_div v t = scale (1 / t) v"

definition dot :: "vec3 \<Rightarrow> vec3 \<Rightarrow> real" where
  "dot u v = vec3_x u * vec3_x v + vec3_y u * vec3_y v + vec3_z u * vec3_z v"

definition cross :: "vec3 \<Rightarrow> vec3 \<Rightarrow> vec3" where
  "cross u v = vec3 (vec3_y u * vec3_z v - vec3_z u * vec3_y v)
                    (vec3_z u * vec3_x v - vec3_x u * vec3_z v)
                    (vec3_x u * vec3_y v - vec3_y u * vec3_x v)"

definition length_squared :: "vec3 \<Rightarrow> real" where
  "length_squared v = vec3_x v * vec3_x v + vec3_y v * vec3_y v + vec3_z v * vec3_z v"

definition vec3_length :: "vec3 \<Rightarrow> real" where
  "vec3_length v = sqrt (length_squared v)"

definition unit_vector :: "vec3 \<Rightarrow> vec3" where
  "unit_vector v = vec3_div v (vec3_length v)"

definition reflect :: "vec3 \<Rightarrow> vec3 \<Rightarrow> vec3" where
  "reflect v n = v - scale (2 * dot v n) n"

record ray =
  origin :: point3
  direction :: vec3

definition ray_at :: "ray \<Rightarrow> real \<Rightarrow> point3" where
  "ray_at r t = origin r + scale t (direction r)"

text \<open>
  The remaining helpers of the missing headers are not determined by the spec: the
  process-wide random generator behind \<open>random_double()\<close> and \<open>random_unit_vector()\<close>,
  \<open>refract\<close> (the spec says "via Snell's law") and \<open>vec3::near_zero\<close> ("numerically
  near zero").  They are parameters of the model.  The generator is an explicit state
  \<open>'g\<close> that each draw takes and returns.
\<close>

record 'g externals =
  random_double :: "'g \<Rightarrow> real \<times> 'g"
  random_unit_vector :: "'g \<Rightarrow> vec3 \<times> 'g"
  refract :: "vec3 \<Rightarrow> vec3 \<Rightarrow> real \<Rightarrow> vec3"
  near_zero :: "vec3 \<Rightarrow> bool"

section \<open>Interval\<close>

text \<open>
  The class \<open>interval\<close>.  Its two \<open>double\<close> members are of type \<^typ>\<open>real\<close> for the
  fixed intensity range of \<open>write_color\<close> and of type \<^typ>\<open>xreal\<close> for ranges of the ray
  parameter, whose upper bound may be infinite.
\<close>

record 'a interval =
  interval_min :: 'a
  interval_max :: 'a

definition interval :: "'a \<Rightarrow> 'a \<Rightarrow> 'a interval" where
  "interval lo hi = \<lparr>interval_min = lo, interval_max = hi\<rparr>"

definition size_interval :: "real interval \<Rightarrow> real" where
  "size_interval i = interval_max i - interval_min i"

definition contains :: "'a::ord interval \<Rightarrow> 'a \<Rightarrow> bool" where
  "contains i x \<longleftrightarrow> interval_min i \<le> x \<and> x \<le> interval_max i"

definition surrounds :: "'a::ord interval \<Rightarrow> 'a \<Rightarrow> bool" where
  "surrounds i x \<longleftrightarrow> interval_min i < x \<and> x < interval_max i"


definition interval_empty :: "xreal interval" where
  "interval_empty = interval PosInf NegInf"

definition interval_universe :: "xreal interval" where
  "interval_universe = interval NegInf PosInf"

section \<open>Colour output\<close>







section \<open>Materials, hit records and geometry\<close>

text \<open>
  The class \<open>material\<close> and its three subclasses; the constructor \<open>Material\<close> stands
  for an object of the base class itself.  The lower-case functions are the C++
  constructors.
\<close>

datatype material =
    Material
  | Lambertian (lambertian_albedo: color)
  | Metal (metal_albedo: color) (metal_fuzz: real)
  | Dielectric (dielectric_refraction_index: real)

definition lambertian :: "color \<Rightarrow> material" where
  "lambertian albedo = Lambertian albedo"

definition metal :: "color \<Rightarrow> real \<Rightarrow> material" where
  "metal albedo fuzz = Metal albedo (if fuzz < 1 then fuzz else 1)"

definition dielectric :: "real \<Rightarrow> material" where
  "dielectric refraction_index = Dielectric refraction_index"

text \<open>A \<open>shared_ptr<material>\<close> is a \<^typ>\<open>material option\<close>; \<open>None\<close> is the null pointer.\<close>

record hit_record =
  rec_p :: point3
  rec_normal :: vec3
  rec_mat :: "material option"
  rec_t :: real
  rec_front_face :: bool

definition set_face_normal :: "hit_record \<Rightarrow> ray \<Rightarrow> vec3 \<Rightarrow> hit_record" where
  "set_face_normal rec r outward_normal =
    (let rec = rec\<lparr>rec_front_face := dot (direction r) outward_normal < 0\<rparr>
     in rec\<lparr>rec_normal := (if rec_front_face rec then outward_normal else - outward_normal)\<rparr>)"

text \<open>
  A default-constructed \<open>hit_record\<close>.  C++ leaves \<open>t\<close> and \<open>front_face\<close> uninitialised;
  the model fixes them to \<open>0\<close> and \<open>False\<close>.  A hit overwrites every field and a miss
  is never read (lemma \<open>hit_indep\<close> below), so no result depends on this choice.
\<close>

definition hit_record_init :: hit_record where
  "hit_record_init =
     \<lparr>rec_p = 0, rec_normal = 0, rec_mat = None, rec_t = 0, rec_front_face = False\<rparr>"

datatype hittable =
    Sphere (sphere_center: point3) (sphere_radius: real) (sphere_mat: "material option")
  | Hittable_list (objects: "hittable list")

definition sphere :: "point3 \<Rightarrow> real \<Rightarrow> material option \<Rightarrow> hittable" where
  "sphere center radius mat = Sphere center (max 0 radius) mat"

text \<open>The tail of \<open>sphere::hit\<close> that records the hit information for the accepted root.\<close>

definition record_hit ::
  "point3 \<Rightarrow> real \<Rightarrow> material option \<Rightarrow> ray \<Rightarrow> real \<Rightarrow> hit_record \<Rightarrow> bool \<times> hit_record" where
  "record_hit center radius mat r root' rec =
    (let rec = rec\<lparr>rec_t := root'\<rparr>;
         rec = rec\<lparr>rec_p := ray_at r (rec_t rec)\<rparr>;
         outward_normal = vec3_div (rec_p rec - center) radius;
         rec = set_face_normal rec r outward_normal;
         rec = rec\<lparr>rec_mat := mat\<rparr>
     in (True, rec))"

text \<open>
  \<open>sphere::hit\<close>.  The record \<open>rec\<close> is passed by reference: the model takes it and
  returns it beside the boolean result.  When the direction is the zero vector, \<open>a\<close>,
  \<open>h\<close>, the discriminant and its root are all \<open>0\<close>, both candidate roots are the IEEE
  quotient \<open>0 / 0\<close>, a NaN, which no interval contains: the source returns false.
  The model has this case as the branch \<open>a = 0\<close>.  The quotient by \<open>radius\<close> in the
  outward normal is HOL's; it differs from the IEEE one for radius \<open>0\<close> only.
\<close>

definition sphere_hit ::
  "point3 \<Rightarrow> real \<Rightarrow> material option \<Rightarrow> ray \<Rightarrow> xreal interval \<Rightarrow> hit_record
     \<Rightarrow> bool \<times> hit_record" where
  "sphere_hit center radius mat r ray_t rec =
    (let oc = center - origin r;
         a = length_squared (direction r);
         h = dot (direction r) oc;
         c = length_squared oc - radius * radius;
         discriminant = h * h - a * c
     in if discriminant < 0 then (False, rec)
        else if a = 0 then (False, rec)
        else
          let sqrtd = sqrt discriminant;
              root' = (h - sqrtd) / a
          in if \<not> contains ray_t (Finite root') then
               (let root' = (h + sqrtd) / a
                in if \<not> contains ray_t (Finite root') then (False, rec)
                   else record_hit center radius mat r root' rec)
             else record_hit center radius mat r root' rec)"

text \<open>
  \<open>hittable::hit\<close> with its two overriders.  The loop of \<open>hittable_list::hit\<close> is
  \<open>hit_objects\<close>; its state is \<open>temp_rec\<close>, \<open>hit_anything\<close>, \<open>closest_so_far\<close> and the
  caller's \<open>rec\<close>.
\<close>

fun hit :: "hittable \<Rightarrow> ray \<Rightarrow> xreal interval \<Rightarrow> hit_record \<Rightarrow> bool \<times> hit_record"
and hit_objects ::
  "hittable list \<Rightarrow> ray \<Rightarrow> xreal interval \<Rightarrow> hit_record \<times> bool \<times> xreal \<times> hit_record
     \<Rightarrow> hit_record \<times> bool \<times> xreal \<times> hit_record"
where
  "hit (Sphere center radius mat) r ray_t rec = sphere_hit center radius mat r ray_t rec"
| "hit (Hittable_list objs) r ray_t rec =
    (case hit_objects objs r ray_t (hit_record_init, False, interval_max ray_t, rec) of
       (temp_rec, hit_anything, closest_so_far, rec') \<Rightarrow> (hit_anything, rec'))"
| "hit_objects [] r ray_t st = st"
| "hit_objects (object # objs) r ray_t (temp_rec, hit_anything, closest_so_far, rec) =
    (case hit object r (interval (interval_min ray_t) closest_so_far) temp_rec of
       (True, temp_rec') \<Rightarrow>
         hit_objects objs r ray_t (temp_rec', True, Finite (rec_t temp_rec'), temp_rec')
     | (False, temp_rec') \<Rightarrow>
         hit_objects objs r ray_t (temp_rec', hit_anything, closest_so_far, rec))"

section \<open>Scattering\<close>

definition lambertian_scatter ::
  "'g externals \<Rightarrow> color \<Rightarrow> ray \<Rightarrow> hit_record \<Rightarrow> color \<Rightarrow> ray \<Rightarrow> 'g
     \<Rightarrow> (bool \<times> color \<times> ray) \<times> 'g" where
  "lambertian_scatter ext albedo r_in rec attenuation scattered g =
    (case random_unit_vector ext g of
       (u, g') \<Rightarrow>
         let scatter_direction = rec_normal rec + u;
             scatter_direction =
               (if near_zero ext scatter_direction then rec_normal rec else scatter_direction);
             scattered = \<lparr>origin = rec_p rec, direction = scatter_direction\<rparr>;
             attenuation = albedo
         in ((True, attenuation, scattered), g'))"

definition metal_scatter ::
  "'g externals \<Rightarrow> color \<Rightarrow> real \<Rightarrow> ray \<Rightarrow> hit_record \<Rightarrow> color \<Rightarrow> ray \<Rightarrow> 'g
     \<Rightarrow> (bool \<times> color \<times> ray) \<times> 'g" where
  "metal_scatter ext albedo fuzz r_in rec attenuation scattered g =
    (let reflected = reflect (direction r_in) (rec_normal rec)
     in case random_unit_vector ext g of
          (u, g') \<Rightarrow>
            let reflected = unit_vector reflected + scale fuzz u;
                scattered = \<lparr>origin = rec_p rec, direction = reflected\<rparr>;
                attenuation = albedo
            in ((dot (direction scattered) (rec_normal rec) > 0, attenuation, scattered), g'))"

definition reflectance :: "real \<Rightarrow> real \<Rightarrow> real" where
  "reflectance cosine refraction_index =
    (let r0 = (1 - refraction_index) / (1 + refraction_index);
         r0 = r0 * r0
     in r0 + (1 - r0) * (1 - cosine) ^ 5)"

text \<open>
  \<open>random_double()\<close> is the right operand of \<open>||\<close>: it is drawn only when
  \<open>cannot_refract\<close> is false.
\<close>

definition dielectric_scatter ::
  "'g externals \<Rightarrow> real \<Rightarrow> ray \<Rightarrow> hit_record \<Rightarrow> color \<Rightarrow> ray \<Rightarrow> 'g
     \<Rightarrow> (bool \<times> color \<times> ray) \<times> 'g" where
  "dielectric_scatter ext refraction_index r_in rec attenuation scattered g =
    (let attenuation = color 1.0 1.0 1.0;
         ri = (if rec_front_face rec then 1.0 / refraction_index else refraction_index);
         unit_direction = unit_vector (direction r_in);
         cos_theta = min (dot (- unit_direction) (rec_normal rec)) 1.0;
         sin_theta = sqrt (1.0 - cos_theta * cos_theta);
         cannot_refract = (ri * sin_theta > 1.0)
     in case (if cannot_refract then (True, g)
              else case random_double ext g of (x, g') \<Rightarrow> (reflectance cos_theta ri > x, g')) of
          (do_reflect, g') \<Rightarrow>
            let direction' =
                  (if do_reflect then reflect unit_direction (rec_normal rec)
                   else refract ext unit_direction (rec_normal rec) ri);
                scattered = \<lparr>origin = rec_p rec, direction = direction'\<rparr>
            in ((True, attenuation, scattered), g'))"

text \<open>
  \<open>material::scatter\<close>, dispatched on the dynamic class.  \<open>attenuation\<close> and
  \<open>scattered\<close> are passed by reference: they come in and go out.
\<close>

fun scatter ::
  "'g externals \<Rightarrow> material \<Rightarrow> ray \<Rightarrow> hit_record \<Rightarrow> color \<Rightarrow> ray \<Rightarrow> 'g
     \<Rightarrow> (bool \<times> color \<times> ray) \<times> 'g" where
  "scatter ext Material r_in rec attenuation scattered g = ((False, attenuation, scattered), g)"
| "scatter ext (Lambertian albedo) r_in rec attenuation scattered g =
     lambertian_scatter ext albedo r_in rec attenuation scattered g"
| "scatter ext (Metal albedo fuzz) r_in rec attenuation scattered g =
     metal_scatter ext albedo fuzz r_in rec attenuation scattered g"
| "scatter ext (Dielectric refraction_index) r_in rec attenuation scattered g =
     dielectric_scatter ext refraction_index r_in rec attenuation scattered g"

section \<open>Camera\<close>

text \<open>
  A call through a null material pointer, which C++ leaves undefined, is an error value
  of the model.
\<close>

datatype error = Null_material

record camera =
  aspect_ratio :: real
  image_width :: int
  samples_per_pixel :: int
  max_depth :: int
  vfov :: real
  lookfrom :: point3
  lookat :: point3
  vup :: vec3
  defocus_angle :: real
  focus_dist :: real
  image_height :: int
  pixel_samples_scale :: xreal
  cam_center :: point3
  pixel00_loc :: point3
  pixel_delta_u :: vec3
  pixel_delta_v :: vec3
  cam_u :: vec3
  cam_v :: vec3
  cam_w :: vec3
  defocus_disk_u :: vec3
  defocus_disk_v :: vec3

text \<open>
  A camera as its member initialisers leave it.  The private members have no
  initialiser; the model sets the scalar ones to \<open>0\<close>.
\<close>

definition camera_init :: camera where
  "camera_init =
     \<lparr>aspect_ratio = 1.0, image_width = 100, samples_per_pixel = 10, max_depth = 10,
      vfov = 90, lookfrom = point3 0 0 0, lookat = point3 0 0 (-1), vup = vec3 0 1 0,
      defocus_angle = 0, focus_dist = 10,
      image_height = 0, pixel_samples_scale = Finite 0, cam_center = 0, pixel00_loc = 0,
      pixel_delta_u = 0, pixel_delta_v = 0, cam_u = 0, cam_v = 0, cam_w = 0,
      defocus_disk_u = 0, defocus_disk_v = 0\<rparr>"

text \<open>
  Modelled from the spec: \<open>degrees_to_radians\<close> belongs to the same missing utility
  header; the spec's field of view is an angle in degrees whose tangent is taken.
\<close>

definition degrees_to_radians :: "real \<Rightarrow> real" where
  "degrees_to_radians degrees = degrees * pi / 180.0"

text \<open>
  \<open>camera::initialize\<close>.  It has no guard and always runs to its end.
  \<open>image_width / aspect_ratio\<close> is a double; for \<open>aspect_ratio = 0\<close> it is an infinity
  or a NaN, whose conversion to \<open>int\<close> yields the \<open>indefinite\<close> value as that of a finite
  quotient out of range does.  \<open>1.0 / samples_per_pixel\<close> is the IEEE quotient: positive
  infinity for \<open>samples_per_pixel = 0\<close>.
\<close>

definition initialize :: "int \<Rightarrow> camera \<Rightarrow> camera" where
  "initialize indefinite cam =
    (let cam = cam\<lparr>image_height :=
                  (if aspect_ratio cam = 0 then indefinite
                   else double_to_int indefinite
                          (real_of_int (image_width cam) / aspect_ratio cam))\<rparr>;
         cam = cam\<lparr>image_height := (if image_height cam < 1 then 1 else image_height cam)\<rparr>;
         cam = cam\<lparr>pixel_samples_scale :=
                 (if samples_per_pixel cam = 0 then PosInf
                  else Finite (1.0 / real_of_int (samples_per_pixel cam)))\<rparr>;
         cam = cam\<lparr>cam_center := lookfrom cam\<rparr>;
         theta = degrees_to_radians (vfov cam);
         h = tan (theta / 2);
         viewport_height = 2 * h * focus_dist cam;
         viewport_width =
           viewport_height * (real_of_int (image_width cam) / real_of_int (image_height cam));
         cam = cam\<lparr>cam_w := unit_vector (lookfrom cam - lookat cam)\<rparr>;
         cam = cam\<lparr>cam_u := unit_vector (cross (vup cam) (cam_w cam))\<rparr>;
         cam = cam\<lparr>cam_v := cross (cam_w cam) (cam_u cam)\<rparr>;
         viewport_u = scale viewport_width (cam_u cam);
         viewport_v = scale viewport_height (- cam_v cam);
         cam = cam\<lparr>pixel_delta_u := vec3_div viewport_u (real_of_int (image_width cam))\<rparr>;
         cam = cam\<lparr>pixel_delta_v := vec3_div viewport_v (real_of_int (image_height cam))\<rparr>;
         viewport_upper_left =
           cam_center cam - scale (focus_dist cam) (cam_w cam)
             - vec3_div viewport_u 2 - vec3_div viewport_v 2;
         cam = cam\<lparr>pixel00_loc :=
                 viewport_upper_left + scale 0.5 (pixel_delta_u cam + pixel_delta_v cam)\<rparr>;
         defocus_radius = focus_dist cam * tan (degrees_to_radians (defocus_angle cam / 2));
         cam = cam\<lparr>defocus_disk_u := scale defocus_radius (cam_u cam)\<rparr>;
         cam = cam\<lparr>defocus_disk_v := scale defocus_radius (cam_v cam)\<rparr>
     in cam)"

text \<open>
  \<open>camera::ray_color\<close>.  The generator state is threaded through the bounces.  The
  locals \<open>scattered\<close> and \<open>attenuation\<close> start default-constructed.
\<close>

function ray_color ::
  "'g externals \<Rightarrow> ray \<Rightarrow> int \<Rightarrow> hittable \<Rightarrow> 'g \<Rightarrow> error + (color \<times> 'g)" where
  "ray_color ext r depth world g =
    (if depth \<le> 0 then Inr (color 0 0 0, g)
     else
       case hit world r (interval (Finite 0.0001) infinity) hit_record_init of
         (True, rec) \<Rightarrow>
           (case rec_mat rec of
              None \<Rightarrow> Inl Null_material
            | Some m \<Rightarrow>
                (case scatter ext m r rec 0 \<lparr>origin = 0, direction = 0\<rparr> g of
                   ((True, attenuation, scattered), g') \<Rightarrow>
                     (case ray_color ext scattered (depth - 1) world g' of
                        Inl e \<Rightarrow> Inl e
                      | Inr (c, g'') \<Rightarrow> Inr (attenuation * c, g''))
                 | ((False, attenuation, scattered), g') \<Rightarrow> Inr (color 0 0 0, g')))
       | (False, rec) \<Rightarrow>
           (let unit_direction = unit_vector (direction r);
                a = 0.5 * (vec3_y unit_direction + 1.0)
            in Inr (scale (1.0 - a) (color 1.0 1.0 1.0) + scale a (color 0.5 0.7 1.0), g)))"
  by pat_completeness auto
termination
  by (relation "measure (\<lambda>(ext, r, depth, world, g). nat depth)") auto

section \<open>Colour output: the emitted bytes\<close>







section \<open>The metal constructor\<close>

text \<open>
  Claim C10.  The \<open>metal\<close> constructor clamps the fuzz argument from above only: the
  stored fuzz is the argument when that is below 1 and is 1 otherwise, so it never
  exceeds 1, and a negative argument is stored unchanged.
\<close>

theorem metal_fuzz_clamped_above:
  "metal_fuzz (metal albedo f) = (if f < 1 then f else 1)
   \<and> metal_fuzz (metal albedo f) \<le> 1
   \<and> (f < 0 \<longrightarrow> metal_fuzz (metal albedo f) = f)"
  by (simp add: metal_def)

theorem metal_fuzz_clamped_above_witness:
  "(-2::real) < 0 \<and> metal_fuzz (metal (color 0.8 0.6 0.2) (-2)) = -2
   \<and> metal_fuzz (metal (color 0.8 0.6 0.2) 3) \<le> 1"
  using metal_fuzz_clamped_above [of "color 0.8 0.6 0.2" "-2"]
        metal_fuzz_clamped_above [of "color 0.8 0.6 0.2" 3]
  by simp

section \<open>Sphere intersection\<close>

lemma record_hit_fields:
  "record_hit center radius mat r t rec =
     (True, rec\<lparr>rec_t := t, rec_p := ray_at r t,
                rec_front_face := dot (direction r) (vec3_div (ray_at r t - center) radius) < 0,
                rec_normal := (if dot (direction r) (vec3_div (ray_at r t - center) radius) < 0
                               then vec3_div (ray_at r t - center) radius
                               else - vec3_div (ray_at r t - center) radius),
                rec_mat := mat\<rparr>)"
  by (simp add: record_hit_def set_face_normal_def Let_def)

lemma length_squared_nonneg: "0 \<le> length_squared v"
  by (simp add: length_squared_def)

lemma roots_ordered:
  assumes "0 \<le> d"
  shows "(h - sqrt d) / length_squared v \<le> (h + sqrt d) / length_squared v"
proof -
  have "h - sqrt d \<le> h + sqrt d" using assms by simp
  then show ?thesis using length_squared_nonneg [of v] by (rule divide_right_mono)
qed

lemma sqrt_quarter: "sqrt (1 / 4) = 1 / 2"
  by (simp add: real_sqrt_divide)

lemma sphere_example:
  assumes "contains ray_t (Finite 0.5)"
  shows "hit (sphere (point3 0 0 (-1)) 0.5 mat)
            \<lparr>origin = point3 0 0 0, direction = vec3 0 0 (-1)\<rparr> ray_t rec =
         (True, \<lparr>rec_p = point3 0 0 (-0.5), rec_normal = vec3 0 0 1, rec_mat = mat,
                 rec_t = 0.5, rec_front_face = True\<rparr>)"
proof -
  have d: "(1::real) - 3 / 4 = 1 / 4" by simp
  show ?thesis using assms
    by (simp add: sphere_def sphere_hit_def Let_def minus_vec3_def plus_vec3_def length_squared_def
        dot_def d sqrt_quarter record_hit_fields ray_at_def scale_def vec3_div_def)
qed

text \<open>
  Claim C3.  \<open>sphere::hit\<close> solves the half-coefficient quadratic: with
  \<open>h = dot(direction, center - origin)\<close> and discriminant \<open>d = h*h - a*c\<close> it reports no
  hit when \<open>d\<close> is negative; otherwise it tests the smaller root \<open>(h - sqrt d) / a\<close>
  first, falls back to the larger root \<open>(h + sqrt d) / a\<close> when the smaller one is outside
  the interval, and reports no hit when both are outside.  An accepted root \<open>t\<close> is
  recorded with the point \<open>at(t)\<close>, the outward normal \<open>(p - center) / radius\<close> oriented
  against the ray, the front-face flag and the material.  For the sphere at \<open>(0,0,-1)\<close>
  of radius \<open>0.5\<close> and the ray from the origin in direction \<open>(0,0,-1)\<close> the hit has
  \<open>t = 0.5\<close>, point \<open>(0,0,-0.5)\<close>, normal \<open>(0,0,1)\<close> and \<open>front_face = true\<close>.
\<close>

theorem sphere_hit_roots:
  "let oc = center - origin r;
       a = length_squared (direction r);
       h = dot (direction r) oc;
       c = length_squared oc - radius * radius;
       d = h * h - a * c;
       t1 = (h - sqrt d) / a;
       t2 = (h + sqrt d) / a
   in (d < 0 \<longrightarrow> hit (Sphere center radius mat) r ray_t rec = (False, rec))
    \<and> (0 \<le> d \<longrightarrow> t1 \<le> t2)
    \<and> (0 \<le> d \<and> a \<noteq> 0 \<and> contains ray_t (Finite t1) \<longrightarrow>
          hit (Sphere center radius mat) r ray_t rec = record_hit center radius mat r t1 rec)
    \<and> (0 \<le> d \<and> a \<noteq> 0 \<and> \<not> contains ray_t (Finite t1) \<and> contains ray_t (Finite t2) \<longrightarrow>
          hit (Sphere center radius mat) r ray_t rec = record_hit center radius mat r t2 rec)
    \<and> (\<not> contains ray_t (Finite t1) \<and> \<not> contains ray_t (Finite t2) \<longrightarrow>
          hit (Sphere center radius mat) r ray_t rec = (False, rec))
    \<and> (\<forall>t. record_hit center radius mat r t rec =
          (True, rec\<lparr>rec_t := t, rec_p := ray_at r t,
                rec_front_face := dot (direction r) (vec3_div (ray_at r t - center) radius) < 0,
                rec_normal := (if dot (direction r) (vec3_div (ray_at r t - center) radius) < 0
                               then vec3_div (ray_at r t - center) radius
                               else - vec3_div (ray_at r t - center) radius),
                rec_mat := mat\<rparr>))
    \<and> (contains ray_t (Finite 0.5) \<longrightarrow>
          hit (sphere (point3 0 0 (-1)) 0.5 mat)
              \<lparr>origin = point3 0 0 0, direction = vec3 0 0 (-1)\<rparr> ray_t rec =
          (True, \<lparr>rec_p = point3 0 0 (-0.5), rec_normal = vec3 0 0 1, rec_mat = mat,
                  rec_t = 0.5, rec_front_face = True\<rparr>))"
  unfolding Let_def
proof (intro conjI impI allI, goal_cases)
  case 1
  then show ?case by (simp add: sphere_hit_def Let_def)
next
  case 2
  then show ?case by (rule roots_ordered)
next
  case 3
  then show ?case by (simp add: sphere_hit_def Let_def)
next
  case 4
  then show ?case by (simp add: sphere_hit_def Let_def)
next
  case 5
  then show ?case by (simp add: sphere_hit_def Let_def)
next
  case (6 t)
  show ?case by (rule record_hit_fields)
next
  case 7
  then show ?case by (rule sphere_example)
qed

theorem sphere_hit_roots_witness:
  "contains (interval (Finite 0.0001) infinity) (Finite 0.5)
   \<and> hit (sphere (point3 0 0 (-1)) 0.5 (Some (Lambertian (color 0.5 0.5 0.5))))
          \<lparr>origin = point3 0 0 0, direction = vec3 0 0 (-1)\<rparr>
          (interval (Finite 0.0001) infinity) hit_record_init =
       (True, \<lparr>rec_p = point3 0 0 (-0.5), rec_normal = vec3 0 0 1,
               rec_mat = Some (Lambertian (color 0.5 0.5 0.5)),
               rec_t = 0.5, rec_front_face = True\<rparr>)"
proof -
  have h: "contains (interval (Finite 0.0001) infinity) (Finite 0.5)"
    by (simp add: contains_def interval_def infinity_def)
  from sphere_hit_roots [of "point3 0 0 (-1)" "\<lparr>origin = point3 0 0 0, direction = vec3 0 0 (-1)\<rparr>"
      "0.5" "Some (Lambertian (color 0.5 0.5 0.5))" "interval (Finite 0.0001) infinity" hit_record_init]
  have "contains (interval (Finite 0.0001) infinity) (Finite 0.5) \<longrightarrow>
          hit (sphere (point3 0 0 (-1)) 0.5 (Some (Lambertian (color 0.5 0.5 0.5))))
          \<lparr>origin = point3 0 0 0, direction = vec3 0 0 (-1)\<rparr>
          (interval (Finite 0.0001) infinity) hit_record_init =
       (True, \<lparr>rec_p = point3 0 0 (-0.5), rec_normal = vec3 0 0 1,
               rec_mat = Some (Lambertian (color 0.5 0.5 0.5)),
               rec_t = 0.5, rec_front_face = True\<rparr>)"
    unfolding Let_def by blast
  with h show ?thesis by blast
qed

section \<open>The record is written only on a hit\<close>

lemma sphere_hit_False: "\<not> fst (sphere_hit center radius mat r ray_t rec) \<Longrightarrow>
   snd (sphere_hit center radius mat r ray_t rec) = rec"
  by (simp add: sphere_hit_def Let_def record_hit_def split: if_splits)

lemma hit_objects_frame:
  assumes "\<And>object r ray_t rec. object \<in> set objs \<Longrightarrow> \<not> fst (hit object r ray_t rec)
             \<Longrightarrow> snd (hit object r ray_t rec) = rec"
    and "hit_objects objs r ray_t (temp_rec, hit_anything, closest_so_far, rec) =
           (temp_rec', hit_anything', closest_so_far', rec')"
  shows "(hit_anything \<longrightarrow> hit_anything') \<and> (\<not> hit_anything' \<longrightarrow> rec' = rec)"
  using assms
proof (induction objs arbitrary: temp_rec hit_anything closest_so_far rec)
  case Nil
  then show ?case by simp
next
  case (Cons object objs)
  obtain b y where hb:
    "hit object r (interval (interval_min ray_t) closest_so_far) temp_rec = (b, y)"
    by (cases "hit object r (interval (interval_min ray_t) closest_so_far) temp_rec")
  have members: "\<And>object r ray_t rec. object \<in> set objs \<Longrightarrow> \<not> fst (hit object r ray_t rec)
             \<Longrightarrow> snd (hit object r ray_t rec) = rec"
    using Cons.prems(1) by simp
  show ?case
  proof (cases b)
    case True
    with hb Cons.prems(2)
    have "hit_objects objs r ray_t (y, True, Finite (rec_t y), y) =
            (temp_rec', hit_anything', closest_so_far', rec')" by simp
    from Cons.IH [OF members this] show ?thesis by simp
  next
    case False
    with hb Cons.prems(2)
    have "hit_objects objs r ray_t (y, hit_anything, closest_so_far, rec) =
            (temp_rec', hit_anything', closest_so_far', rec')" by simp
    from Cons.IH [OF members this] show ?thesis by simp
  qed
qed

lemma hit_miss_frame:
  "\<not> fst (hit obj r ray_t rec) \<Longrightarrow> snd (hit obj r ray_t rec) = rec"
proof (induction obj arbitrary: r ray_t rec)
  case (Sphere center radius mat)
  then show ?case by (simp add: sphere_hit_False)
next
  case (Hittable_list objs)
  obtain t' a' c' r' where run:
    "hit_objects objs r ray_t (hit_record_init, False, interval_max ray_t, rec) = (t', a', c', r')"
    by (cases "hit_objects objs r ray_t (hit_record_init, False, interval_max ray_t, rec)")
  have "\<not> a' \<longrightarrow> r' = rec"
    using hit_objects_frame [OF _ run] Hittable_list.IH by blast
  with run Hittable_list.prems show ?case by simp
qed

text \<open>
  Claim C9.  Whenever \<open>hit\<close> returns false, for a sphere as for a list of hittables,
  the caller's \<open>hit_record\<close> is left unchanged: its fields are written only on the path
  that returns true.
\<close>

theorem hit_false_leaves_record:
  "\<not> fst (hit obj r ray_t rec) \<Longrightarrow> snd (hit obj r ray_t rec) = rec"
  by (rule hit_miss_frame)

theorem hit_false_leaves_record_witness:
  "\<not> fst (hit (Hittable_list [sphere (point3 0 0 (-1)) 0.5 (Some (Lambertian (color 0.5 0.5 0.5))), Hittable_list []])
            \<lparr>origin = point3 0 0 0, direction = vec3 0 1 0\<rparr>
            (interval (Finite 0.0001) infinity)
            \<lparr>rec_p = point3 1 2 3, rec_normal = vec3 0 1 0, rec_mat = Some (Dielectric 1.5),
             rec_t = 7, rec_front_face = True\<rparr>)
   \<and> snd (hit (Hittable_list [sphere (point3 0 0 (-1)) 0.5 (Some (Lambertian (color 0.5 0.5 0.5))), Hittable_list []])
            \<lparr>origin = point3 0 0 0, direction = vec3 0 1 0\<rparr>
            (interval (Finite 0.0001) infinity)
            \<lparr>rec_p = point3 1 2 3, rec_normal = vec3 0 1 0, rec_mat = Some (Dielectric 1.5),
             rec_t = 7, rec_front_face = True\<rparr>)
     = \<lparr>rec_p = point3 1 2 3, rec_normal = vec3 0 1 0, rec_mat = Some (Dielectric 1.5),
             rec_t = 7, rec_front_face = True\<rparr>"
proof -
  have miss: "\<not> fst (hit (Hittable_list [sphere (point3 0 0 (-1)) 0.5 (Some (Lambertian (color 0.5 0.5 0.5))), Hittable_list []])
            \<lparr>origin = point3 0 0 0, direction = vec3 0 1 0\<rparr>
            (interval (Finite 0.0001) infinity)
            \<lparr>rec_p = point3 1 2 3, rec_normal = vec3 0 1 0, rec_mat = Some (Dielectric 1.5),
             rec_t = 7, rec_front_face = True\<rparr>)"
    by (simp add: sphere_def sphere_hit_def Let_def minus_vec3_def length_squared_def dot_def)
  from miss hit_false_leaves_record [OF miss] show ?thesis by blast
qed

section \<open>Scattering\<close>

text \<open>
  Claim C5.  \<open>dielectric::scatter\<close> returns true for every incoming ray and hit record
  and sets the attenuation to \<open>(1,1,1)\<close>, whichever of the reflect and refract branches
  is taken.
\<close>

theorem dielectric_always_scatters:
  "\<exists>scattered' g'.
     scatter ext (dielectric refraction_index) r_in rec attenuation scattered g =
       ((True, color 1 1 1, scattered'), g')"
  by (simp add: dielectric_def dielectric_scatter_def Let_def split: prod.splits)

theorem dielectric_always_scatters_witness:
  "fst (fst (scatter
       \<lparr>random_double = (\<lambda>g::nat. (1 / 2, g + 1)),
        random_unit_vector = (\<lambda>g. (vec3 0 0 (-1), g + 1)),
        refract = (\<lambda>uv n etai_over_etat. uv),
        near_zero = (\<lambda>v. v = 0)\<rparr>
       (dielectric 1.5)
       \<lparr>origin = point3 0 0 0, direction = vec3 0 0 (-1)\<rparr>
       \<lparr>rec_p = point3 0 0 (-0.5), rec_normal = vec3 0 0 1,
        rec_mat = Some (dielectric 1.5), rec_t = 0.5, rec_front_face = True\<rparr>
       0 \<lparr>origin = 0, direction = 0\<rparr> 0))
   \<and> fst (snd (fst (scatter
       \<lparr>random_double = (\<lambda>g::nat. (1 / 2, g + 1)),
        random_unit_vector = (\<lambda>g. (vec3 0 0 (-1), g + 1)),
        refract = (\<lambda>uv n etai_over_etat. uv),
        near_zero = (\<lambda>v. v = 0)\<rparr>
       (dielectric 1.5)
       \<lparr>origin = point3 0 0 0, direction = vec3 0 0 (-1)\<rparr>
       \<lparr>rec_p = point3 0 0 (-0.5), rec_normal = vec3 0 0 1,
        rec_mat = Some (dielectric 1.5), rec_t = 0.5, rec_front_face = True\<rparr>
       0 \<lparr>origin = 0, direction = 0\<rparr> 0))) = color 1 1 1"
  using dielectric_always_scatters [of
       "\<lparr>random_double = (\<lambda>g::nat. (1 / 2, g + 1)),
        random_unit_vector = (\<lambda>g. (vec3 0 0 (-1), g + 1)),
        refract = (\<lambda>uv n etai_over_etat. uv),
        near_zero = (\<lambda>v. v = 0)\<rparr>"
       "1.5"
       "\<lparr>origin = point3 0 0 0, direction = vec3 0 0 (-1)\<rparr>"
       "\<lparr>rec_p = point3 0 0 (-0.5), rec_normal = vec3 0 0 1,
        rec_mat = Some (dielectric 1.5), rec_t = 0.5, rec_front_face = True\<rparr>"
       0 "\<lparr>origin = 0, direction = 0\<rparr>" 0]
  by auto

lemma vec3_add_scale_zero: "v + scale 0 u = v"
  by (simp add: plus_vec3_def scale_def)

text \<open>
  Claim C6.  For a metal built with \<open>fuzz = 0\<close> the scattered direction is the
  normalised reflection of the incoming direction about the normal (the fuzz term
  contributes nothing), and \<open>scatter\<close> returns true exactly when the dot product of the
  scattered direction with the normal is positive.
\<close>

theorem metal_fuzz_zero_mirror:
  "let res = fst (scatter ext (metal albedo 0) r_in rec attenuation scattered g);
       scattered' = snd (snd res)
   in direction scattered' = unit_vector (reflect (direction r_in) (rec_normal rec))
    \<and> origin scattered' = rec_p rec
    \<and> fst (snd res) = albedo
    \<and> (fst res \<longleftrightarrow> dot (direction scattered') (rec_normal rec) > 0)"
  by (simp add: metal_def metal_scatter_def Let_def vec3_add_scale_zero split: prod.splits)

theorem metal_fuzz_zero_mirror_witness:
  "fst (fst (scatter
       \<lparr>random_double = (\<lambda>g::nat. (1 / 2, g + 1)),
        random_unit_vector = (\<lambda>g. (vec3 0 1 0, g + 1)),
        refract = (\<lambda>uv n etai_over_etat. uv),
        near_zero = (\<lambda>v. v = 0)\<rparr>
       (metal (color 0.8 0.8 0.8) 0)
       \<lparr>origin = point3 0 0 0, direction = vec3 0 0 (-1)\<rparr>
       \<lparr>rec_p = point3 0 0 (-0.5), rec_normal = vec3 0 0 1,
        rec_mat = Some (metal (color 0.8 0.8 0.8) 0), rec_t = 0.5, rec_front_face = True\<rparr>
       0 \<lparr>origin = 0, direction = 0\<rparr> 0))
   \<and> direction (snd (snd (fst (scatter
       \<lparr>random_double = (\<lambda>g::nat. (1 / 2, g + 1)),
        random_unit_vector = (\<lambda>g. (vec3 0 1 0, g + 1)),
        refract = (\<lambda>uv n etai_over_etat. uv),
        near_zero = (\<lambda>v. v = 0)\<rparr>
       (metal (color 0.8 0.8 0.8) 0)
       \<lparr>origin = point3 0 0 0, direction = vec3 0 0 (-1)\<rparr>
       \<lparr>rec_p = point3 0 0 (-0.5), rec_normal = vec3 0 0 1,
        rec_mat = Some (metal (color 0.8 0.8 0.8) 0), rec_t = 0.5, rec_front_face = True\<rparr>
       0 \<lparr>origin = 0, direction = 0\<rparr> 0)))) = vec3 0 0 1"
proof -
  have mirror: "unit_vector (reflect (vec3 0 0 (-1)) (vec3 0 0 1)) = vec3 0 0 1"
    by (simp add: unit_vector_def reflect_def dot_def scale_def minus_vec3_def vec3_div_def
        vec3_length_def length_squared_def)
  have up: "dot (vec3 0 0 1) (vec3 0 0 1) > 0" by (simp add: dot_def)
  from metal_fuzz_zero_mirror [of
       "\<lparr>random_double = (\<lambda>g::nat. (1 / 2, g + 1)),
        random_unit_vector = (\<lambda>g. (vec3 0 1 0, g + 1)),
        refract = (\<lambda>uv n etai_over_etat. uv),
        near_zero = (\<lambda>v. v = 0)\<rparr>"
       "color 0.8 0.8 0.8"
       "\<lparr>origin = point3 0 0 0, direction = vec3 0 0 (-1)\<rparr>"
       "\<lparr>rec_p = point3 0 0 (-0.5), rec_normal = vec3 0 0 1,
        rec_mat = Some (metal (color 0.8 0.8 0.8) 0), rec_t = 0.5, rec_front_face = True\<rparr>"
       0 "\<lparr>origin = 0, direction = 0\<rparr>" 0] mirror up
  show ?thesis unfolding Let_def by simp
qed

lemma diff_square_bound: "(p - q) * (p - q) \<le> 2 * (p * p) + 2 * (q * q)" for p q :: real
proof -
  have "0 \<le> (p + q) * (p + q)" by simp
  then show ?thesis by (simp add: algebra_simps)
qed

lemma length_squared_sum_bound:
  "length_squared u \<le> 2 * length_squared (n + u) + 2 * length_squared n"
proof -
  have x: "vec3_x u * vec3_x u \<le> 2 * ((vec3_x n + vec3_x u) * (vec3_x n + vec3_x u)) + 2 * (vec3_x n * vec3_x n)"
    using diff_square_bound [of "vec3_x n + vec3_x u" "vec3_x n"] by simp
  have y: "vec3_y u * vec3_y u \<le> 2 * ((vec3_y n + vec3_y u) * (vec3_y n + vec3_y u)) + 2 * (vec3_y n * vec3_y n)"
    using diff_square_bound [of "vec3_y n + vec3_y u" "vec3_y n"] by simp
  have z: "vec3_z u * vec3_z u \<le> 2 * ((vec3_z n + vec3_z u) * (vec3_z n + vec3_z u)) + 2 * (vec3_z n * vec3_z n)"
    using diff_square_bound [of "vec3_z n + vec3_z u" "vec3_z n"] by simp
  from x y z show ?thesis
    by (simp add: length_squared_def plus_vec3_def)
qed

lemma fallback_not_near_zero:
  assumes unit: "length_squared u = 1"
    and short: "\<And>v. nz v \<Longrightarrow> length_squared v < 1 / 4"
    and sum: "nz (n + u)"
  shows "\<not> nz n"
proof
  assume "nz n"
  then have "length_squared n < 1 / 4" by (rule short)
  moreover have "length_squared (n + u) < 1 / 4" using sum by (rule short)
  ultimately have "length_squared u < 1"
    using length_squared_sum_bound [of u n] by simp
  with unit show False by simp
qed

text \<open>
  Claim C7.  \<open>lambertian::scatter\<close> returns true with the albedo as attenuation; the
  scattered direction is the normal plus the drawn unit vector, except that it is the
  normal itself when that sum is near zero, so the scattered direction is never near
  zero.  The two helpers are parameters of the model: the draw is assumed to be a unit
  vector and a vector that \<open>near_zero\<close> accepts is assumed shorter than \<open>1/2\<close>.
\<close>

theorem lambertian_scatter_direction:
  assumes unit: "length_squared (fst (random_unit_vector ext g)) = 1"
    and short: "\<And>v. near_zero ext v \<Longrightarrow> length_squared v < 1 / 4"
  shows "let res = fst (scatter ext (lambertian albedo) r_in rec attenuation scattered g);
             u = fst (random_unit_vector ext g);
             d = direction (snd (snd res))
         in fst res = True
          \<and> fst (snd res) = albedo
          \<and> d = (if near_zero ext (rec_normal rec + u) then rec_normal rec else rec_normal rec + u)
          \<and> \<not> near_zero ext d"
proof -
  obtain u g' where draw: "random_unit_vector ext g = (u, g')"
    by (cases "random_unit_vector ext g")
  have u1: "length_squared u = 1" using unit draw by simp
  have "near_zero ext (rec_normal rec + u) \<Longrightarrow> \<not> near_zero ext (rec_normal rec)"
    using fallback_not_near_zero [OF u1 short] by blast
  then show ?thesis
    by (simp add: lambertian_def lambertian_scatter_def Let_def draw)
qed

lemma small_square: "\<bar>x\<bar> < 1 / 10 ^ 8 \<Longrightarrow> x * x < 1 / 12" for x :: real
proof -
  assume a: "\<bar>x\<bar> < 1 / 10 ^ 8"
  then have "\<bar>x\<bar> < 1 / 4" by simp
  then have "\<bar>x\<bar> * \<bar>x\<bar> < (1 / 4) * (1 / 4)"
    by (intro mult_strict_mono') simp_all
  then show ?thesis by (simp add: abs_mult_self_eq)
qed

theorem lambertian_scatter_direction_witness:
  "length_squared (fst (random_unit_vector
       \<lparr>random_double = (\<lambda>g::nat. (1 / 2, g + 1)),
        random_unit_vector = (\<lambda>g. (vec3 0 0 (-1), g + 1)),
        refract = (\<lambda>uv n etai_over_etat. uv),
        near_zero = (\<lambda>v. \<bar>vec3_x v\<bar> < 1 / 10 ^ 8 \<and> \<bar>vec3_y v\<bar> < 1 / 10 ^ 8 \<and> \<bar>vec3_z v\<bar> < 1 / 10 ^ 8)\<rparr> 0)) = 1
   \<and> direction (snd (snd (fst (scatter
       \<lparr>random_double = (\<lambda>g::nat. (1 / 2, g + 1)),
        random_unit_vector = (\<lambda>g. (vec3 0 0 (-1), g + 1)),
        refract = (\<lambda>uv n etai_over_etat. uv),
        near_zero = (\<lambda>v. \<bar>vec3_x v\<bar> < 1 / 10 ^ 8 \<and> \<bar>vec3_y v\<bar> < 1 / 10 ^ 8 \<and> \<bar>vec3_z v\<bar> < 1 / 10 ^ 8)\<rparr>
       (lambertian (color 0.5 0.5 0.5))
       \<lparr>origin = point3 0 0 0, direction = vec3 0 0 (-1)\<rparr>
       \<lparr>rec_p = point3 0 0 (-0.5), rec_normal = vec3 0 0 1,
        rec_mat = Some (lambertian (color 0.5 0.5 0.5)), rec_t = 0.5, rec_front_face = True\<rparr>
       0 \<lparr>origin = 0, direction = 0\<rparr> 0)))) = vec3 0 0 1"
proof -
  let ?ext = "\<lparr>random_double = (\<lambda>g::nat. (1 / 2, g + 1)),
        random_unit_vector = (\<lambda>g. (vec3 0 0 (-1), g + 1)),
        refract = (\<lambda>uv n etai_over_etat. uv),
        near_zero = (\<lambda>v. \<bar>vec3_x v\<bar> < 1 / 10 ^ 8 \<and> \<bar>vec3_y v\<bar> < 1 / 10 ^ 8 \<and> \<bar>vec3_z v\<bar> < 1 / 10 ^ 8)\<rparr>"
  have unit: "length_squared (fst (random_unit_vector ?ext 0)) = 1"
    by (simp add: length_squared_def)
  have short: "\<And>v. near_zero ?ext v \<Longrightarrow> length_squared v < 1 / 4"
  proof -
    fix v assume "near_zero ?ext v"
    then have "vec3_x v * vec3_x v < 1 / 12" "vec3_y v * vec3_y v < 1 / 12"
      "vec3_z v * vec3_z v < 1 / 12"
      using small_square by simp_all
    then show "length_squared v < 1 / 4" by (simp add: length_squared_def)
  qed
  from lambertian_scatter_direction [of ?ext 0 "color 0.5 0.5 0.5"
      "\<lparr>origin = point3 0 0 0, direction = vec3 0 0 (-1)\<rparr>"
      "\<lparr>rec_p = point3 0 0 (-0.5), rec_normal = vec3 0 0 1,
        rec_mat = Some (lambertian (color 0.5 0.5 0.5)), rec_t = 0.5, rec_front_face = True\<rparr>"
      0 "\<lparr>origin = 0, direction = 0\<rparr>", OF unit short]
  have "direction (snd (snd (fst (scatter ?ext (lambertian (color 0.5 0.5 0.5))
       \<lparr>origin = point3 0 0 0, direction = vec3 0 0 (-1)\<rparr>
       \<lparr>rec_p = point3 0 0 (-0.5), rec_normal = vec3 0 0 1,
        rec_mat = Some (lambertian (color 0.5 0.5 0.5)), rec_t = 0.5, rec_front_face = True\<rparr>
       0 \<lparr>origin = 0, direction = 0\<rparr> 0)))) = vec3 0 0 1"
    by (simp add: Let_def plus_vec3_def)
  with unit show ?thesis by blast
qed

section \<open>Camera initialisation\<close>

lemma initialize_fields:
  "image_height (initialize indefinite cam) =
     max 1 (if aspect_ratio cam = 0 then indefinite
            else double_to_int indefinite (real_of_int (image_width cam) / aspect_ratio cam))"
  "pixel_samples_scale (initialize indefinite cam) =
     (if samples_per_pixel cam = 0 then PosInf
      else Finite (1 / real_of_int (samples_per_pixel cam)))"
  by (simp_all add: initialize_def Let_def max_def)

lemma max_trunc_floor: "max 1 (trunc_int q) = max 1 \<lfloor>q\<rfloor>"
proof (cases "0 \<le> q")
  case True
  then show ?thesis by (simp add: trunc_int_def)
next
  case False
  then have "\<lceil>q\<rceil> \<le> 0" "\<lfloor>q\<rfloor> < 0" by (simp_all add: ceiling_le_iff floor_less_iff)
  with False show ?thesis by (simp add: trunc_int_def max_def)
qed

text \<open>
  Claim C8.  \<open>camera::initialize\<close> computes \<open>pixel_samples_scale\<close> as
  \<open>1.0 / samples_per_pixel\<close> with no guard against \<open>samples_per_pixel = 0\<close>: the scale is
  the finite reciprocal when \<open>samples_per_pixel \<ge> 1\<close> and the IEEE infinity when it is
  \<open>0\<close>.  The derived \<open>image_height\<close> is the floored quotient
  \<open>image_width / aspect_ratio\<close> clamped to a minimum of 1, so it is at least 1 for every
  configuration: when the quotient floors to zero, and also when the quotient has no
  \<open>int\<close> value (zero aspect ratio, quotient out of range), whatever the conversion
  leaves there.
\<close>

theorem initialize_height_and_scale:
  "1 \<le> image_height (initialize indefinite cam)
   \<and> (aspect_ratio cam \<noteq> 0
        \<and> int_representable (real_of_int (image_width cam) / aspect_ratio cam) \<longrightarrow>
        image_height (initialize indefinite cam) =
          max 1 \<lfloor>real_of_int (image_width cam) / aspect_ratio cam\<rfloor>)
   \<and> (aspect_ratio cam = 0
        \<or> \<not> int_representable (real_of_int (image_width cam) / aspect_ratio cam) \<longrightarrow>
        image_height (initialize indefinite cam) = max 1 indefinite)
   \<and> (1 \<le> samples_per_pixel cam \<longrightarrow>
        pixel_samples_scale (initialize indefinite cam) =
          Finite (1 / real_of_int (samples_per_pixel cam))
        \<and> (1 / real_of_int (samples_per_pixel cam)) * real_of_int (samples_per_pixel cam) = 1)
   \<and> (samples_per_pixel cam = 0 \<longrightarrow>
        pixel_samples_scale (initialize indefinite cam) = PosInf)"
proof (intro conjI impI, goal_cases)
  case 1
  show ?case by (simp add: initialize_fields(1))
next
  case 2
  then show ?case
    by (simp add: initialize_fields(1) double_to_int_def max_trunc_floor)
next
  case 3
  then show ?case
    by (auto simp add: initialize_fields(1) double_to_int_def)
next
  case 4
  then show ?case by (simp add: initialize_fields(2))
next
  case 5
  then show ?case by simp
next
  case 6
  then show ?case by (simp add: initialize_fields(2))
qed

theorem initialize_height_and_scale_witness:
  "aspect_ratio (camera_init\<lparr>image_width := 1, aspect_ratio := 2\<rparr>) \<noteq> 0
   \<and> int_representable (real_of_int (image_width (camera_init\<lparr>image_width := 1, aspect_ratio := 2\<rparr>))
        / aspect_ratio (camera_init\<lparr>image_width := 1, aspect_ratio := 2\<rparr>))
   \<and> \<lfloor>real_of_int (image_width (camera_init\<lparr>image_width := 1, aspect_ratio := 2\<rparr>))
        / aspect_ratio (camera_init\<lparr>image_width := 1, aspect_ratio := 2\<rparr>)\<rfloor> = 0
   \<and> image_height (initialize (- 2147483648) (camera_init\<lparr>image_width := 1, aspect_ratio := 2\<rparr>)) = 1
   \<and> 1 \<le> samples_per_pixel (camera_init\<lparr>image_width := 1, aspect_ratio := 2\<rparr>)
   \<and> pixel_samples_scale (initialize (- 2147483648) (camera_init\<lparr>image_width := 1, aspect_ratio := 2\<rparr>))
       = Finite (1 / 10)
   \<and> aspect_ratio (camera_init\<lparr>aspect_ratio := 0\<rparr>) = 0
   \<and> image_height (initialize (- 2147483648) (camera_init\<lparr>aspect_ratio := 0\<rparr>)) = 1
   \<and> samples_per_pixel (camera_init\<lparr>samples_per_pixel := 0\<rparr>) = 0
   \<and> pixel_samples_scale (initialize (- 2147483648) (camera_init\<lparr>samples_per_pixel := 0\<rparr>)) = PosInf"
proof -
  let ?cam = "camera_init\<lparr>image_width := 1, aspect_ratio := 2\<rparr>"
  let ?flat = "camera_init\<lparr>aspect_ratio := 0\<rparr>"
  let ?none = "camera_init\<lparr>samples_per_pixel := 0\<rparr>"
  have ar: "aspect_ratio ?cam \<noteq> 0" by simp
  have q: "\<lfloor>real_of_int (image_width ?cam) / aspect_ratio ?cam\<rfloor> = 0" by simp
  have rep: "int_representable (real_of_int (image_width ?cam) / aspect_ratio ?cam)"
    by (simp add: int_representable_def trunc_int_def)
  have spp: "1 \<le> samples_per_pixel ?cam" "samples_per_pixel ?cam = 10"
    by (simp_all add: camera_init_def)
  have flat: "aspect_ratio ?flat = 0" by simp
  have none: "samples_per_pixel ?none = 0" by simp
  from initialize_height_and_scale [of "- 2147483648" ?cam] ar rep spp(1)
  have "image_height (initialize (- 2147483648) ?cam) =
          max 1 \<lfloor>real_of_int (image_width ?cam) / aspect_ratio ?cam\<rfloor>"
    and "pixel_samples_scale (initialize (- 2147483648) ?cam) =
          Finite (1 / real_of_int (samples_per_pixel ?cam))"
    by blast+
  then have one: "image_height (initialize (- 2147483648) ?cam) = 1"
    and scale: "pixel_samples_scale (initialize (- 2147483648) ?cam) = Finite (1 / 10)"
    unfolding q spp(2) by simp_all
  from initialize_height_and_scale [of "- 2147483648" ?flat] flat
  have "image_height (initialize (- 2147483648) ?flat) = max 1 (- 2147483648)" by blast
  then have clamped: "image_height (initialize (- 2147483648) ?flat) = 1" by simp
  from initialize_height_and_scale [of "- 2147483648" ?none] none
  have inf: "pixel_samples_scale (initialize (- 2147483648) ?none) = PosInf" by blast
  from ar rep q one spp(1) scale flat clamped none inf show ?thesis by blast
qed

section \<open>The list of hittables: which member's record is returned\<close>

lemma interval_sel [simp]:
  "interval_min (interval lo hi) = lo" "interval_max (interval lo hi) = hi"
  by (simp_all add: interval_def)

lemma hit_miss: "hit obj r ray_t rec = (False, y) \<Longrightarrow> y = rec"
  using hit_miss_frame [of obj r ray_t rec] by simp

text \<open>The loop reads the search interval only through its lower bound.\<close>

lemma hit_objects_min_only:
  "interval_min ray_t = interval_min ray_t' \<Longrightarrow>
     hit_objects objs r ray_t st = hit_objects objs r ray_t' st"
proof (induction objs arbitrary: st)
  case Nil
  then show ?case by simp
next
  case (Cons object objs)
  obtain t a c rc where st: "st = (t, a, c, rc)" by (cases st)
  show ?case unfolding st using Cons by (simp split: prod.splits bool.splits)
qed

text \<open>A reported intersection lies in the closed search interval.\<close>

lemma sphere_hit_in_interval:
  "fst (sphere_hit center radius mat r ray_t rec) \<Longrightarrow>
     contains ray_t (Finite (rec_t (snd (sphere_hit center radius mat r ray_t rec))))"
  by (simp add: sphere_hit_def Let_def record_hit_fields split: if_splits)

lemma hit_objects_closest:
  assumes members: "\<And>object r ray_t rec. object \<in> set objs \<Longrightarrow> fst (hit object r ray_t rec)
             \<Longrightarrow> contains ray_t (Finite (rec_t (snd (hit object r ray_t rec))))"
    and run: "hit_objects objs r ray_t (temp, anything, c, rec) = (temp', anything', c', rec')"
    and below: "c \<le> interval_max ray_t"
    and inv: "anything \<longrightarrow> c = Finite (rec_t rec) \<and> interval_min ray_t \<le> c \<and> temp = rec"
  shows "c' \<le> interval_max ray_t
         \<and> (anything' \<longrightarrow> c' = Finite (rec_t rec') \<and> interval_min ray_t \<le> c' \<and> temp' = rec')"
  using assms
proof (induction objs arbitrary: temp anything c rec)
  case Nil
  then show ?case by auto
next
  case (Cons object objs)
  obtain b y where hb: "hit object r (interval (interval_min ray_t) c) temp = (b, y)"
    by (cases "hit object r (interval (interval_min ray_t) c) temp")
  have members': "\<And>object r ray_t rec. object \<in> set objs \<Longrightarrow> fst (hit object r ray_t rec)
             \<Longrightarrow> contains ray_t (Finite (rec_t (snd (hit object r ray_t rec))))"
    using Cons.prems(1) by simp
  show ?case
  proof (cases b)
    case True
    have "contains (interval (interval_min ray_t) c) (Finite (rec_t y))"
      using Cons.prems(1) [of object r "interval (interval_min ray_t) c" temp] hb True by simp
    then have lo: "interval_min ray_t \<le> Finite (rec_t y)" and hi: "Finite (rec_t y) \<le> c"
      by (simp_all add: contains_def)
    from hi Cons.prems(3) have below': "Finite (rec_t y) \<le> interval_max ray_t" by (rule order_trans)
    from hb True Cons.prems(2)
    have run': "hit_objects objs r ray_t (y, True, Finite (rec_t y), y) = (temp', anything', c', rec')"
      by simp
    have inv': "True \<longrightarrow> Finite (rec_t y) = Finite (rec_t y)
                  \<and> interval_min ray_t \<le> Finite (rec_t y) \<and> y = y"
      using lo by simp
    show ?thesis by (rule Cons.IH [OF members' run' below' inv'])
  next
    case False
    with hb have "hit object r (interval (interval_min ray_t) c) temp = (False, y)" by simp
    then have y: "y = temp" by (rule hit_miss)
    from hb False Cons.prems(2)
    have run': "hit_objects objs r ray_t (y, anything, c, rec) = (temp', anything', c', rec')"
      by simp
    have inv': "anything \<longrightarrow> c = Finite (rec_t rec) \<and> interval_min ray_t \<le> c \<and> y = rec"
      using Cons.prems(4) y by blast
    show ?thesis by (rule Cons.IH [OF members' run' Cons.prems(3) inv'])
  qed
qed

lemma hit_in_interval:
  "fst (hit obj r ray_t rec) \<Longrightarrow> contains ray_t (Finite (rec_t (snd (hit obj r ray_t rec))))"
proof (induction obj arbitrary: r ray_t rec)
  case (Sphere center radius mat)
  then show ?case by (simp add: sphere_hit_in_interval)
next
  case (Hittable_list objs)
  obtain t' a' c' r' where run:
    "hit_objects objs r ray_t (hit_record_init, False, interval_max ray_t, rec) = (t', a', c', r')"
    by (cases "hit_objects objs r ray_t (hit_record_init, False, interval_max ray_t, rec)")
  have members: "\<And>object r ray_t rec. object \<in> set objs \<Longrightarrow> fst (hit object r ray_t rec)
             \<Longrightarrow> contains ray_t (Finite (rec_t (snd (hit object r ray_t rec))))"
    by (rule Hittable_list.IH)
  have "c' \<le> interval_max ray_t \<and> (a' \<longrightarrow> c' = Finite (rec_t r') \<and> interval_min ray_t \<le> c' \<and> t' = r')"
  proof (rule hit_objects_closest [OF members run order_refl])
    show "False \<longrightarrow> interval_max ray_t = Finite (rec_t rec)
            \<and> interval_min ray_t \<le> interval_max ray_t \<and> hit_record_init = rec" by simp
  qed
  with run Hittable_list.prems show ?case by (auto simp add: contains_def)
qed

text \<open>On a hit every field is overwritten: the result does not depend on the record passed in.\<close>

lemma sphere_hit_indep:
  "fst (sphere_hit center radius mat r ray_t a) = fst (sphere_hit center radius mat r ray_t b)
   \<and> (fst (sphere_hit center radius mat r ray_t a) \<longrightarrow>
        snd (sphere_hit center radius mat r ray_t a) = snd (sphere_hit center radius mat r ray_t b))"
  by (simp add: sphere_hit_def Let_def record_hit_fields)

lemma hit_objects_indep:
  assumes members: "\<And>object r ray_t a b. object \<in> set objs \<Longrightarrow>
        fst (hit object r ray_t a) = fst (hit object r ray_t b)
        \<and> (fst (hit object r ray_t a) \<longrightarrow> snd (hit object r ray_t a) = snd (hit object r ray_t b))"
    and runA: "hit_objects objs r ray_t (tA, anything, c, recA) = (tA', anyA', cA', recA')"
    and runB: "hit_objects objs r ray_t (tB, anything, c, recB) = (tB', anyB', cB', recB')"
    and rel: "anything \<longrightarrow> tA = tB \<and> recA = recB"
  shows "anyA' = anyB' \<and> cA' = cB' \<and> (anyA' \<longrightarrow> tA' = tB' \<and> recA' = recB')"
  using assms
proof (induction objs arbitrary: tA tB anything c recA recB)
  case Nil
  then show ?case by simp
next
  case (Cons object objs)
  obtain bA yA where hA: "hit object r (interval (interval_min ray_t) c) tA = (bA, yA)"
    by (cases "hit object r (interval (interval_min ray_t) c) tA")
  obtain bB yB where hB: "hit object r (interval (interval_min ray_t) c) tB = (bB, yB)"
    by (cases "hit object r (interval (interval_min ray_t) c) tB")
  have same: "bA = bB" "bA \<longrightarrow> yA = yB"
    using Cons.prems(1) [of object r "interval (interval_min ray_t) c" tA tB] hA hB by simp_all
  have members': "\<And>object r ray_t a b. object \<in> set objs \<Longrightarrow>
        fst (hit object r ray_t a) = fst (hit object r ray_t b)
        \<and> (fst (hit object r ray_t a) \<longrightarrow> snd (hit object r ray_t a) = snd (hit object r ray_t b))"
    by (rule Cons.prems(1)) simp
  show ?case
  proof (cases bA)
    case True
    with same have bB: bB and y: "yB = yA" by simp_all
    from hA True Cons.prems(2)
    have runA': "hit_objects objs r ray_t (yA, True, Finite (rec_t yA), yA) = (tA', anyA', cA', recA')"
      by simp
    from hB bB y Cons.prems(3)
    have runB': "hit_objects objs r ray_t (yA, True, Finite (rec_t yA), yA) = (tB', anyB', cB', recB')"
      by simp
    have rel': "True \<longrightarrow> yA = yA \<and> yA = yA" by simp
    show ?thesis by (rule Cons.IH [OF members' runA' runB' rel'])
  next
    case False
    with same have bB: "\<not> bB" by simp
    from hA False have "hit object r (interval (interval_min ray_t) c) tA = (False, yA)" by simp
    then have yA: "yA = tA" by (rule hit_miss)
    from hB bB have "hit object r (interval (interval_min ray_t) c) tB = (False, yB)" by simp
    then have yB: "yB = tB" by (rule hit_miss)
    from hA False Cons.prems(2)
    have runA': "hit_objects objs r ray_t (yA, anything, c, recA) = (tA', anyA', cA', recA')"
      by simp
    from hB bB Cons.prems(3)
    have runB': "hit_objects objs r ray_t (yB, anything, c, recB) = (tB', anyB', cB', recB')"
      by simp
    have rel': "anything \<longrightarrow> yA = yB \<and> recA = recB"
      using Cons.prems(4) yA yB by blast
    show ?thesis by (rule Cons.IH [OF members' runA' runB' rel'])
  qed
qed

lemma hit_indep:
  "fst (hit obj r ray_t a) = fst (hit obj r ray_t b)
   \<and> (fst (hit obj r ray_t a) \<longrightarrow> snd (hit obj r ray_t a) = snd (hit obj r ray_t b))"
proof (induction obj arbitrary: r ray_t a b)
  case (Sphere center radius mat)
  show ?case unfolding hit.simps by (rule sphere_hit_indep)
next
  case (Hittable_list objs)
  obtain tA' aA' cA' rA' where runA:
    "hit_objects objs r ray_t (hit_record_init, False, interval_max ray_t, a) = (tA', aA', cA', rA')"
    by (cases "hit_objects objs r ray_t (hit_record_init, False, interval_max ray_t, a)")
  obtain tB' aB' cB' rB' where runB:
    "hit_objects objs r ray_t (hit_record_init, False, interval_max ray_t, b) = (tB', aB', cB', rB')"
    by (cases "hit_objects objs r ray_t (hit_record_init, False, interval_max ray_t, b)")
  have members: "\<And>object r ray_t a b. object \<in> set objs \<Longrightarrow>
        fst (hit object r ray_t a) = fst (hit object r ray_t b)
        \<and> (fst (hit object r ray_t a) \<longrightarrow> snd (hit object r ray_t a) = snd (hit object r ray_t b))"
    by (rule Hittable_list.IH)
  have "aA' = aB' \<and> cA' = cB' \<and> (aA' \<longrightarrow> tA' = tB' \<and> rA' = rB')"
  proof (rule hit_objects_indep [OF members runA runB])
    show "False \<longrightarrow> hit_record_init = hit_record_init \<and> a = b" by simp
  qed
  with runA runB show ?case by simp
qed

lemma record_hit_t: "fst (record_hit center radius mat r t rec)"
  "rec_t (snd (record_hit center radius mat r t rec)) = t"
  by (simp_all add: record_hit_def Let_def set_face_normal_def)

lemma contains_narrow:
  fixes ray_t :: "xreal interval"
  assumes "c \<le> interval_max ray_t"
  shows "contains (interval (interval_min ray_t) c) x \<longleftrightarrow> contains ray_t x \<and> x \<le> c"
  using assms by (auto simp add: contains_def)

lemma sphere_hit_narrow:
  assumes "c \<le> interval_max ray_t"
  shows "sphere_hit center radius mat r (interval (interval_min ray_t) c) rec =
     (if fst (sphere_hit center radius mat r ray_t rec)
         \<and> Finite (rec_t (snd (sphere_hit center radius mat r ray_t rec))) \<le> c
      then sphere_hit center radius mat r ray_t rec else (False, rec))"
proof -
  define oc where "oc = center - origin r"
  define a where "a = length_squared (direction r)"
  define h where "h = dot (direction r) oc"
  define d where "d = h * h - a * (length_squared oc - radius * radius)"
  define t1 where "t1 = (h - sqrt d) / a"
  define t2 where "t2 = (h + sqrt d) / a"
  have shape: "\<And>iv. sphere_hit center radius mat r iv rec =
      (if d < 0 \<or> a = 0 then (False, rec)
       else if contains iv (Finite t1) then record_hit center radius mat r t1 rec
       else if contains iv (Finite t2) then record_hit center radius mat r t2 rec
       else (False, rec))"
    by (simp add: sphere_hit_def Let_def oc_def a_def h_def d_def t1_def t2_def)
  show ?thesis
  proof (cases "d < 0 \<or> a = 0")
    case True
    then show ?thesis by (simp add: shape)
  next
    case False
    then have "0 \<le> d" by simp
    then have "t1 \<le> t2" unfolding t1_def t2_def a_def by (rule roots_ordered)
    then have ord: "Finite t1 \<le> Finite t2" by simp
    have n1: "contains (interval (interval_min ray_t) c) (Finite t1) \<longleftrightarrow>
                contains ray_t (Finite t1) \<and> Finite t1 \<le> c"
      using assms by (rule contains_narrow)
    have n2: "contains (interval (interval_min ray_t) c) (Finite t2) \<longleftrightarrow>
                contains ray_t (Finite t2) \<and> Finite t2 \<le> c"
      using assms by (rule contains_narrow)
    show ?thesis
    proof (cases "contains ray_t (Finite t1)")
      case first: True
      show ?thesis
      proof (cases "Finite t1 \<le> c")
        case True
        with first False show ?thesis by (simp add: shape n1 record_hit_t)
      next
        case far: False
        then have "\<not> Finite t2 \<le> c" using ord by (meson order_trans)
        with far first False show ?thesis by (simp add: shape n1 n2 record_hit_t)
      qed
    next
      case nofirst: False
      then show ?thesis using False by (simp add: shape n1 n2 record_hit_t)
    qed
  qed
qed

lemma hit_objects_narrow:
  assumes members: "\<And>object r ray_t c rec. object \<in> set objs \<Longrightarrow> c \<le> interval_max ray_t \<Longrightarrow>
        hit object r (interval (interval_min ray_t) c) rec =
          (if fst (hit object r ray_t rec) \<and> Finite (rec_t (snd (hit object r ray_t rec))) \<le> c
           then hit object r ray_t rec else (False, rec))"
    and runH: "hit_objects objs r ray_t (tH, anyH, cH, recH) = (tH', anyH', cH', recH')"
    and runC: "hit_objects objs r ray_t (tC, anyC, cC, recC) = (tC', anyC', cC', recC')"
    and rel: "cC = min cH c \<and> (anyC \<longleftrightarrow> anyH \<and> cH \<le> c) \<and> (anyC \<longrightarrow> recC = recH \<and> tC = tH)"
  shows "cC' = min cH' c \<and> (anyC' \<longleftrightarrow> anyH' \<and> cH' \<le> c) \<and> (anyC' \<longrightarrow> recC' = recH' \<and> tC' = tH')"
  using assms
proof (induction objs arbitrary: tH anyH cH recH tC anyC cC recC)
  case Nil
  then show ?case by auto
next
  case (Cons object objs)
  let ?lo = "interval_min ray_t"
  have members': "\<And>object r ray_t c rec. object \<in> set objs \<Longrightarrow> c \<le> interval_max ray_t \<Longrightarrow>
        hit object r (interval (interval_min ray_t) c) rec =
          (if fst (hit object r ray_t rec) \<and> Finite (rec_t (snd (hit object r ray_t rec))) \<le> c
           then hit object r ray_t rec else (False, rec))"
    by (rule Cons.prems(1)) simp_all
  note rel = Cons.prems(4)
  obtain bH yH where hH: "hit object r (interval ?lo cH) tH = (bH, yH)"
    by (cases "hit object r (interval ?lo cH) tH")
  have le: "cC \<le> cH" using rel by simp
  have "hit object r (interval (interval_min (interval ?lo cH)) cC) tC =
          (if fst (hit object r (interval ?lo cH) tC)
              \<and> Finite (rec_t (snd (hit object r (interval ?lo cH) tC))) \<le> cC
           then hit object r (interval ?lo cH) tC else (False, tC))"
    by (rule Cons.prems(1)) (simp_all add: le)
  then have narrowed: "hit object r (interval ?lo cC) tC =
          (if fst (hit object r (interval ?lo cH) tC)
              \<and> Finite (rec_t (snd (hit object r (interval ?lo cH) tC))) \<le> cC
           then hit object r (interval ?lo cH) tC else (False, tC))"
    by simp
  have ind: "fst (hit object r (interval ?lo cH) tC) = bH"
      "bH \<Longrightarrow> snd (hit object r (interval ?lo cH) tC) = yH"
    using hit_indep [of object r "interval ?lo cH" tC tH] hH by simp_all
  show ?case
  proof (cases bH)
    case True
    have "contains (interval ?lo cH) (Finite (rec_t yH))"
      using hit_in_interval [of object r "interval ?lo cH" tH] hH True by simp
    then have inH: "Finite (rec_t yH) \<le> cH" by (simp add: contains_def)
    from hH True Cons.prems(2)
    have runH': "hit_objects objs r ray_t (yH, True, Finite (rec_t yH), yH) = (tH', anyH', cH', recH')"
      by simp
    have full: "hit object r (interval ?lo cH) tC = (True, yH)"
      using ind True by (simp add: prod_eq_iff)
    show ?thesis
    proof (cases "Finite (rec_t yH) \<le> cC")
      case near: True
      with narrowed ind True full have "hit object r (interval ?lo cC) tC = (True, yH)" by simp
      with Cons.prems(3)
      have runC': "hit_objects objs r ray_t (yH, True, Finite (rec_t yH), yH) = (tC', anyC', cC', recC')"
        by simp
      have "Finite (rec_t yH) \<le> c" using near rel by simp
      then have rel': "Finite (rec_t yH) = min (Finite (rec_t yH)) c
          \<and> (True \<longleftrightarrow> True \<and> Finite (rec_t yH) \<le> c) \<and> (True \<longrightarrow> yH = yH \<and> yH = yH)"
        by (simp add: min_def)
      show ?thesis by (rule Cons.IH [OF members' runH' runC' rel'])
    next
      case far: False
      with narrowed ind True have "hit object r (interval ?lo cC) tC = (False, tC)" by simp
      with Cons.prems(3)
      have runC': "hit_objects objs r ray_t (tC, anyC, cC, recC) = (tC', anyC', cC', recC')"
        by simp
      have cfar: "\<not> Finite (rec_t yH) \<le> c" "\<not> cH \<le> c" "cC = c"
        using far inH rel by (auto simp add: min_def split: if_splits)
      then have rel': "cC = min (Finite (rec_t yH)) c
          \<and> (anyC \<longleftrightarrow> True \<and> Finite (rec_t yH) \<le> c) \<and> (anyC \<longrightarrow> recC = yH \<and> tC = yH)"
        using rel by (auto simp add: min_def)
      show ?thesis by (rule Cons.IH [OF members' runH' runC' rel'])
    qed
  next
    case False
    with hH have "hit object r (interval ?lo cH) tH = (False, yH)" by simp
    then have yH: "yH = tH" by (rule hit_miss)
    from hH False Cons.prems(2)
    have runH': "hit_objects objs r ray_t (yH, anyH, cH, recH) = (tH', anyH', cH', recH')"
      by simp
    from narrowed ind False have "hit object r (interval ?lo cC) tC = (False, tC)" by simp
    with Cons.prems(3)
    have runC': "hit_objects objs r ray_t (tC, anyC, cC, recC) = (tC', anyC', cC', recC')"
      by simp
    have rel': "cC = min cH c \<and> (anyC \<longleftrightarrow> anyH \<and> cH \<le> c) \<and> (anyC \<longrightarrow> recC = recH \<and> tC = yH)"
      using rel yH by blast
    show ?thesis by (rule Cons.IH [OF members' runH' runC' rel'])
  qed
qed

lemma hit_narrow:
  "c \<le> interval_max ray_t \<Longrightarrow>
     hit obj r (interval (interval_min ray_t) c) rec =
       (if fst (hit obj r ray_t rec) \<and> Finite (rec_t (snd (hit obj r ray_t rec))) \<le> c
        then hit obj r ray_t rec else (False, rec))"
proof (induction obj arbitrary: r ray_t c rec)
  case (Sphere center radius mat)
  then show ?case unfolding hit.simps by (rule sphere_hit_narrow)
next
  case (Hittable_list objs)
  obtain tH' aH' cH' rH' where runH:
    "hit_objects objs r ray_t (hit_record_init, False, interval_max ray_t, rec) = (tH', aH', cH', rH')"
    by (cases "hit_objects objs r ray_t (hit_record_init, False, interval_max ray_t, rec)")
  obtain tC' aC' cC' rC' where runC:
    "hit_objects objs r ray_t (hit_record_init, False, c, rec) = (tC', aC', cC', rC')"
    by (cases "hit_objects objs r ray_t (hit_record_init, False, c, rec)")
  have same_lo: "hit_objects objs r (interval (interval_min ray_t) c) (hit_record_init, False, c, rec) =
      hit_objects objs r ray_t (hit_record_init, False, c, rec)"
    by (rule hit_objects_min_only) simp
  have members: "\<And>object r ray_t c rec. object \<in> set objs \<Longrightarrow> c \<le> interval_max ray_t \<Longrightarrow>
        hit object r (interval (interval_min ray_t) c) rec =
          (if fst (hit object r ray_t rec) \<and> Finite (rec_t (snd (hit object r ray_t rec))) \<le> c
           then hit object r ray_t rec else (False, rec))"
    by (rule Hittable_list.IH)
  have rel0: "c = min (interval_max ray_t) c \<and> (False \<longleftrightarrow> False \<and> interval_max ray_t \<le> c)
        \<and> (False \<longrightarrow> rec = rec \<and> hit_record_init = hit_record_init)"
    using Hittable_list.prems by (simp add: min_def)
  have rel: "cC' = min cH' c \<and> (aC' \<longleftrightarrow> aH' \<and> cH' \<le> c) \<and> (aC' \<longrightarrow> rC' = rH' \<and> tC' = tH')"
    by (rule hit_objects_narrow [OF members runH runC rel0])
  have closest: "cH' \<le> interval_max ray_t
         \<and> (aH' \<longrightarrow> cH' = Finite (rec_t rH') \<and> interval_min ray_t \<le> cH' \<and> tH' = rH')"
  proof (rule hit_objects_closest [OF _ runH order_refl])
    show "False \<longrightarrow> interval_max ray_t = Finite (rec_t rec)
            \<and> interval_min ray_t \<le> interval_max ray_t \<and> hit_record_init = rec" by simp
  qed (rule hit_in_interval)
  have frame: "\<not> aC' \<longrightarrow> rC' = rec"
    using hit_objects_frame [OF _ runC] hit_miss_frame by blast
  have lhs: "hit (Hittable_list objs) r (interval (interval_min ray_t) c) rec = (aC', rC')"
    by (simp add: same_lo runC)
  have rhs: "hit (Hittable_list objs) r ray_t rec = (aH', rH')"
    by (simp add: runH)
  show ?case unfolding lhs rhs using rel closest frame by auto
qed

lemma hit_objects_append:
  "hit_objects (xs @ ys) r ray_t st = hit_objects ys r ray_t (hit_objects xs r ray_t st)"
proof (induction xs arbitrary: st)
  case Nil
  then show ?case by simp
next
  case (Cons object xs)
  obtain t a c rc where st: "st = (t, a, c, rc)" by (cases st)
  show ?case unfolding st using Cons by (simp split: prod.splits bool.splits)
qed

lemma sphere_example_unit:
  assumes "contains ray_t (Finite 1)"
  shows "hit (sphere (point3 0 0 (-2)) 1 mat)
            \<lparr>origin = point3 0 0 0, direction = vec3 0 0 (-1)\<rparr> ray_t rec =
         (True, \<lparr>rec_p = point3 0 0 (-1), rec_normal = vec3 0 0 1, rec_mat = mat,
                 rec_t = 1, rec_front_face = True\<rparr>)"
  using assms
  by (simp add: sphere_def sphere_hit_def Let_def minus_vec3_def plus_vec3_def length_squared_def
      dot_def record_hit_def set_face_normal_def ray_at_def scale_def vec3_div_def)

lemma camera_range_contains_one: "contains (interval (Finite (1 / 10000)) infinity) (Finite 1)"
  by (simp add: contains_def infinity_def)

lemma closest_range_contains_one: "contains (interval (Finite (1 / 10000)) (Finite 1)) (Finite 1)"
  by (simp add: contains_def)

text \<open>
  Claim C2 says that of two members reporting an intersection at equal \<open>t\<close> the one
  tested first prevails.  The code tests each member on the closed interval
  \<open>[ray_t.min, closest_so_far]\<close>, and \<open>sphere::hit\<close> accepts a root with
  \<open>interval::contains\<close>, so a later member at equal \<open>t\<close> is accepted and replaces the
  record.  Two spheres of equal centre and radius and different materials: the list
  returns the record of the second.
\<close>

theorem hittable_list_tie_counterexample:
  "fst (hit (sphere (point3 0 0 (-2)) 1 (Some (lambertian (color (1 / 2) (1 / 2) (1 / 2)))))
          \<lparr>origin = point3 0 0 0, direction = vec3 0 0 (-1)\<rparr>
          (interval (Finite (1 / 10000)) infinity) hit_record_init)
   \<and> fst (hit (sphere (point3 0 0 (-2)) 1 (Some (dielectric (3 / 2))))
          \<lparr>origin = point3 0 0 0, direction = vec3 0 0 (-1)\<rparr>
          (interval (Finite (1 / 10000)) infinity) hit_record_init)
   \<and> rec_t (snd (hit (sphere (point3 0 0 (-2)) 1 (Some (lambertian (color (1 / 2) (1 / 2) (1 / 2)))))
          \<lparr>origin = point3 0 0 0, direction = vec3 0 0 (-1)\<rparr>
          (interval (Finite (1 / 10000)) infinity) hit_record_init))
     = rec_t (snd (hit (sphere (point3 0 0 (-2)) 1 (Some (dielectric (3 / 2))))
          \<lparr>origin = point3 0 0 0, direction = vec3 0 0 (-1)\<rparr>
          (interval (Finite (1 / 10000)) infinity) hit_record_init))
   \<and> snd (hit (Hittable_list
               [sphere (point3 0 0 (-2)) 1 (Some (lambertian (color (1 / 2) (1 / 2) (1 / 2)))),
                sphere (point3 0 0 (-2)) 1 (Some (dielectric (3 / 2)))])
          \<lparr>origin = point3 0 0 0, direction = vec3 0 0 (-1)\<rparr>
          (interval (Finite (1 / 10000)) infinity) hit_record_init)
     = snd (hit (sphere (point3 0 0 (-2)) 1 (Some (dielectric (3 / 2))))
          \<lparr>origin = point3 0 0 0, direction = vec3 0 0 (-1)\<rparr>
          (interval (Finite (1 / 10000)) infinity) hit_record_init)
   \<and> snd (hit (Hittable_list
               [sphere (point3 0 0 (-2)) 1 (Some (lambertian (color (1 / 2) (1 / 2) (1 / 2)))),
                sphere (point3 0 0 (-2)) 1 (Some (dielectric (3 / 2)))])
          \<lparr>origin = point3 0 0 0, direction = vec3 0 0 (-1)\<rparr>
          (interval (Finite (1 / 10000)) infinity) hit_record_init)
     \<noteq> snd (hit (sphere (point3 0 0 (-2)) 1 (Some (lambertian (color (1 / 2) (1 / 2) (1 / 2)))))
          \<lparr>origin = point3 0 0 0, direction = vec3 0 0 (-1)\<rparr>
          (interval (Finite (1 / 10000)) infinity) hit_record_init)"
  by (simp add: sphere_example_unit camera_range_contains_one closest_range_contains_one
      lambertian_def dielectric_def)

text \<open>
  Claim C2, amended.  For every list of hittables, ray and search interval: when the
  members tested so far have a best hit and a member tested later reports an
  intersection in the search interval, the later member overrides the best hit exactly
  when its \<open>t\<close> is smaller than or equal to the best \<open>t\<close>; at equal \<open>t\<close> the list
  returns the record of the member tested later.
\<close>

theorem hittable_list_later_member_overrides:
  assumes best: "hit (Hittable_list objs) r ray_t rec = (True, rec1)"
    and later: "hit object r ray_t temp = (True, rec2)"
  shows "hit (Hittable_list (objs @ [object])) r ray_t rec =
           (True, if rec_t rec2 \<le> rec_t rec1 then rec2 else rec1)"
proof -
  obtain t' a' c' r' where run:
    "hit_objects objs r ray_t (hit_record_init, False, interval_max ray_t, rec) = (t', a', c', r')"
    by (cases "hit_objects objs r ray_t (hit_record_init, False, interval_max ray_t, rec)")
  with best have a': "a'" and r': "r' = rec1" by simp_all
  have closest: "c' \<le> interval_max ray_t
         \<and> (a' \<longrightarrow> c' = Finite (rec_t r') \<and> interval_min ray_t \<le> c' \<and> t' = r')"
  proof (rule hit_objects_closest [OF _ run order_refl])
    show "False \<longrightarrow> interval_max ray_t = Finite (rec_t rec)
            \<and> interval_min ray_t \<le> interval_max ray_t \<and> hit_record_init = rec" by simp
  qed (rule hit_in_interval)
  with a' r' have c': "c' = Finite (rec_t rec1)" and below: "c' \<le> interval_max ray_t"
    and t': "t' = rec1" by blast+
  have "fst (hit object r ray_t t') \<and> snd (hit object r ray_t t') = rec2"
    using hit_indep [of object r ray_t t' temp] later by simp
  then have full: "hit object r ray_t t' = (True, rec2)" by (simp add: prod_eq_iff)
  have step: "hit object r (interval (interval_min ray_t) c') t' =
      (if Finite (rec_t rec2) \<le> c' then (True, rec2) else (False, t'))"
    using hit_narrow [OF below, of object r t'] full by simp
  have "hit_objects (objs @ [object]) r ray_t (hit_record_init, False, interval_max ray_t, rec) =
      hit_objects [object] r ray_t (t', a', c', r')"
    by (simp add: hit_objects_append run)
  also have "\<dots> = (if rec_t rec2 \<le> rec_t rec1 then (rec2, True, Finite (rec_t rec2), rec2)
                    else (t', True, c', rec1))"
    using step a' r' c' by simp
  finally show ?thesis by simp
qed

theorem hittable_list_later_member_overrides_witness:
  "hit (Hittable_list [sphere (point3 0 0 (-2)) 1 (Some (lambertian (color (1 / 2) (1 / 2) (1 / 2))))])
       \<lparr>origin = point3 0 0 0, direction = vec3 0 0 (-1)\<rparr>
       (interval (Finite (1 / 10000)) infinity) hit_record_init
     = (True, \<lparr>rec_p = point3 0 0 (-1), rec_normal = vec3 0 0 1,
               rec_mat = Some (lambertian (color (1 / 2) (1 / 2) (1 / 2))), rec_t = 1, rec_front_face = True\<rparr>)
   \<and> hit (sphere (point3 0 0 (-2)) 1 (Some (dielectric (3 / 2))))
       \<lparr>origin = point3 0 0 0, direction = vec3 0 0 (-1)\<rparr>
       (interval (Finite (1 / 10000)) infinity) hit_record_init
     = (True, \<lparr>rec_p = point3 0 0 (-1), rec_normal = vec3 0 0 1,
               rec_mat = Some (dielectric (3 / 2)), rec_t = 1, rec_front_face = True\<rparr>)
   \<and> hit (Hittable_list ([sphere (point3 0 0 (-2)) 1 (Some (lambertian (color (1 / 2) (1 / 2) (1 / 2))))]
                          @ [sphere (point3 0 0 (-2)) 1 (Some (dielectric (3 / 2)))]))
       \<lparr>origin = point3 0 0 0, direction = vec3 0 0 (-1)\<rparr>
       (interval (Finite (1 / 10000)) infinity) hit_record_init
     = (True, \<lparr>rec_p = point3 0 0 (-1), rec_normal = vec3 0 0 1,
               rec_mat = Some (dielectric (3 / 2)), rec_t = 1, rec_front_face = True\<rparr>)"
proof -
  have best: "hit (Hittable_list [sphere (point3 0 0 (-2)) 1 (Some (lambertian (color (1 / 2) (1 / 2) (1 / 2))))])
       \<lparr>origin = point3 0 0 0, direction = vec3 0 0 (-1)\<rparr>
       (interval (Finite (1 / 10000)) infinity) hit_record_init
     = (True, \<lparr>rec_p = point3 0 0 (-1), rec_normal = vec3 0 0 1,
               rec_mat = Some (lambertian (color (1 / 2) (1 / 2) (1 / 2))), rec_t = 1, rec_front_face = True\<rparr>)"
    by (simp add: sphere_example_unit camera_range_contains_one)
  have later: "hit (sphere (point3 0 0 (-2)) 1 (Some (dielectric (3 / 2))))
       \<lparr>origin = point3 0 0 0, direction = vec3 0 0 (-1)\<rparr>
       (interval (Finite (1 / 10000)) infinity) hit_record_init
     = (True, \<lparr>rec_p = point3 0 0 (-1), rec_normal = vec3 0 0 1,
               rec_mat = Some (dielectric (3 / 2)), rec_t = 1, rec_front_face = True\<rparr>)"
    by (simp add: sphere_example_unit camera_range_contains_one)
  from hittable_list_later_member_overrides [OF best later]
  have "hit (Hittable_list ([sphere (point3 0 0 (-2)) 1 (Some (lambertian (color (1 / 2) (1 / 2) (1 / 2))))]
                          @ [sphere (point3 0 0 (-2)) 1 (Some (dielectric (3 / 2)))]))
       \<lparr>origin = point3 0 0 0, direction = vec3 0 0 (-1)\<rparr>
       (interval (Finite (1 / 10000)) infinity) hit_record_init
     = (True, \<lparr>rec_p = point3 0 0 (-1), rec_normal = vec3 0 0 1,
               rec_mat = Some (dielectric (3 / 2)), rec_t = 1, rec_front_face = True\<rparr>)"
    by simp
  with best later show ?thesis by blast
qed

section \<open>The colour of a ray that hits nothing\<close>

text \<open>
  Claim C1 says that a ray that hits nothing gets the background gradient whatever the
  depth.  \<open>ray_color\<close> tests \<open>depth <= 0\<close> first and returns black there: at depth 0 in
  the empty scene the upward ray gets \<open>(0,0,0)\<close>, not the gradient \<open>(0.5,0.7,1.0)\<close>.
\<close>

theorem ray_color_depth_counterexample:
  "\<not> fst (hit (Hittable_list []) \<lparr>origin = point3 0 0 0, direction = vec3 0 1 0\<rparr>
            (interval (Finite 0.0001) infinity) hit_record_init)
   \<and> ray_color
       \<lparr>random_double = (\<lambda>g::nat. (1 / 2, g + 1)),
        random_unit_vector = (\<lambda>g. (vec3 0 1 0, g + 1)),
        refract = (\<lambda>uv n etai_over_etat. uv),
        near_zero = (\<lambda>v. v = 0)\<rparr>
       \<lparr>origin = point3 0 0 0, direction = vec3 0 1 0\<rparr> 0 (Hittable_list []) 0
     = Inr (color 0 0 0, 0)
   \<and> scale (1 - 0.5 * (vec3_y (unit_vector (direction \<lparr>origin = point3 0 0 0, direction = vec3 0 1 0\<rparr>)) + 1))
         (color 1 1 1)
       + scale (0.5 * (vec3_y (unit_vector (direction \<lparr>origin = point3 0 0 0, direction = vec3 0 1 0\<rparr>)) + 1))
         (color 0.5 0.7 1.0)
     = color 0.5 0.7 1.0
   \<and> ray_color
       \<lparr>random_double = (\<lambda>g::nat. (1 / 2, g + 1)),
        random_unit_vector = (\<lambda>g. (vec3 0 1 0, g + 1)),
        refract = (\<lambda>uv n etai_over_etat. uv),
        near_zero = (\<lambda>v. v = 0)\<rparr>
       \<lparr>origin = point3 0 0 0, direction = vec3 0 1 0\<rparr> 0 (Hittable_list []) 0
     \<noteq> Inr (scale (1 - 0.5 * (vec3_y (unit_vector (direction \<lparr>origin = point3 0 0 0, direction = vec3 0 1 0\<rparr>)) + 1))
              (color 1 1 1)
            + scale (0.5 * (vec3_y (unit_vector (direction \<lparr>origin = point3 0 0 0, direction = vec3 0 1 0\<rparr>)) + 1))
              (color 0.5 0.7 1.0), 0)"
proof -
  have grad: "scale (1 - 0.5 * (vec3_y (unit_vector (direction \<lparr>origin = point3 0 0 0, direction = vec3 0 1 0\<rparr>)) + 1))
         (color 1 1 1)
       + scale (0.5 * (vec3_y (unit_vector (direction \<lparr>origin = point3 0 0 0, direction = vec3 0 1 0\<rparr>)) + 1))
         (color 0.5 0.7 1.0)
     = color 0.5 0.7 1.0"
    by (simp add: unit_vector_def vec3_div_def vec3_length_def length_squared_def scale_def
        plus_vec3_def)
  have black: "ray_color
       \<lparr>random_double = (\<lambda>g::nat. (1 / 2, g + 1)),
        random_unit_vector = (\<lambda>g. (vec3 0 1 0, g + 1)),
        refract = (\<lambda>uv n etai_over_etat. uv),
        near_zero = (\<lambda>v. v = 0)\<rparr>
       \<lparr>origin = point3 0 0 0, direction = vec3 0 1 0\<rparr> 0 (Hittable_list []) 0
     = Inr (color 0 0 0, 0)"
    by (subst ray_color.simps) simp
  show ?thesis unfolding grad black by simp
qed

text \<open>
  Claim C1, amended.  For every ray that hits nothing in the scene (an empty scene is
  never hit) and every depth of at least 1, \<open>ray_color\<close> returns exactly the background
  gradient \<open>(1-a) * white + a * (0.5,0.7,1.0)\<close> with
  \<open>a = 0.5 * (unit(r.direction).y + 1)\<close>, determined by the normalised vertical
  component of the direction alone; for a depth of 0 or less it returns black.
\<close>

theorem ray_color_background:
  "(1 \<le> depth \<and> \<not> fst (hit world r (interval (Finite 0.0001) infinity) hit_record_init) \<longrightarrow>
      ray_color ext r depth world g =
        Inr (scale (1 - 0.5 * (vec3_y (unit_vector (direction r)) + 1)) (color 1 1 1)
             + scale (0.5 * (vec3_y (unit_vector (direction r)) + 1)) (color 0.5 0.7 1.0), g))
   \<and> (\<forall>ray_t rec. \<not> fst (hit (Hittable_list []) r ray_t rec))
   \<and> (depth \<le> 0 \<longrightarrow> ray_color ext r depth world g = Inr (color 0 0 0, g))"
proof (intro conjI impI allI, goal_cases)
  case 1
  then obtain rec where miss:
    "hit world r (interval (Finite 0.0001) infinity) hit_record_init = (False, rec)"
    by (cases "hit world r (interval (Finite 0.0001) infinity) hit_record_init") simp
  from 1 have "\<not> depth \<le> 0" by simp
  then show ?case
    apply (subst ray_color.simps)
    using miss by (simp add: Let_def)
next
  case (2 ray_t rec)
  show ?case by simp
next
  case 3
  then show ?case by (subst ray_color.simps) simp
qed

theorem ray_color_background_witness:
  "(1::int) \<le> 50
   \<and> \<not> fst (hit (Hittable_list []) \<lparr>origin = point3 0 0 0, direction = vec3 0 1 0\<rparr>
            (interval (Finite 0.0001) infinity) hit_record_init)
   \<and> ray_color
       \<lparr>random_double = (\<lambda>g::nat. (1 / 2, g + 1)),
        random_unit_vector = (\<lambda>g. (vec3 0 1 0, g + 1)),
        refract = (\<lambda>uv n etai_over_etat. uv),
        near_zero = (\<lambda>v. v = 0)\<rparr>
       \<lparr>origin = point3 0 0 0, direction = vec3 0 1 0\<rparr> 50 (Hittable_list []) 0
     = Inr (color 0.5 0.7 1.0, 0)"
proof -
  have grad: "scale (1 - 0.5 * (vec3_y (unit_vector (direction \<lparr>origin = point3 0 0 0, direction = vec3 0 1 0\<rparr>)) + 1))
         (color 1 1 1)
       + scale (0.5 * (vec3_y (unit_vector (direction \<lparr>origin = point3 0 0 0, direction = vec3 0 1 0\<rparr>)) + 1))
         (color 0.5 0.7 1.0)
     = color 0.5 0.7 1.0"
    by (simp add: unit_vector_def vec3_div_def vec3_length_def length_squared_def scale_def
        plus_vec3_def)
  have miss: "\<not> fst (hit (Hittable_list []) \<lparr>origin = point3 0 0 0, direction = vec3 0 1 0\<rparr>
            (interval (Finite 0.0001) infinity) hit_record_init)"
    by simp
  have deep: "(1::int) \<le> 50" by simp
  from ray_color_background [of 50 "Hittable_list []"
      "\<lparr>origin = point3 0 0 0, direction = vec3 0 1 0\<rparr>"
      "\<lparr>random_double = (\<lambda>g::nat. (1 / 2, g + 1)),
        random_unit_vector = (\<lambda>g. (vec3 0 1 0, g + 1)),
        refract = (\<lambda>uv n etai_over_etat. uv),
        near_zero = (\<lambda>v. v = 0)\<rparr>" 0] deep miss
  have "ray_color
       \<lparr>random_double = (\<lambda>g::nat. (1 / 2, g + 1)),
        random_unit_vector = (\<lambda>g. (vec3 0 1 0, g + 1)),
        refract = (\<lambda>uv n etai_over_etat. uv),
        near_zero = (\<lambda>v. v = 0)\<rparr>
       \<lparr>origin = point3 0 0 0, direction = vec3 0 1 0\<rparr> 50 (Hittable_list []) 0
     = Inr (scale (1 - 0.5 * (vec3_y (unit_vector (direction \<lparr>origin = point3 0 0 0, direction = vec3 0 1 0\<rparr>)) + 1))
              (color 1 1 1)
            + scale (0.5 * (vec3_y (unit_vector (direction \<lparr>origin = point3 0 0 0, direction = vec3 0 1 0\<rparr>)) + 1))
              (color 0.5 0.7 1.0), 0)"
    by blast
  then show ?thesis unfolding grad using deep miss by blast
qed

end
